theory Spec2Isabelle
  imports Main "HOL-Library.AList"
begin

section \<open>Values exchanged between host and isolate\<close>

text \<open>
  The two halves of the isolation protocol are the host-side
  \<^verbatim>\<open>IframeExecutionEnvironmentService\<close> and the isolate-side \<^verbatim>\<open>Controller\<close>
  of \<^verbatim>\<open>SnapWorker.ts\<close>. They exchange JSON-RPC objects over the multiplexed
  \<^verbatim>\<open>command\<close> substream. A JavaScript \<^verbatim>\<open>Error\<close> is the object that carries a
  \<^verbatim>\<open>message\<close>, and what a snap or its handler throws is such an object; a
  value of type \<^verbatim>\<open>unknown\<close> is a JSON value; \<^verbatim>\<open>undefined\<close> is \<open>None\<close>. An id
  that is \<^verbatim>\<open>null\<close> or \<^verbatim>\<open>undefined\<close> is \<open>IdNull\<close>.
\<close>

datatype json =
    JNull
  | JBool bool
  | JNum int
  | JStr string
  | JArr "json list"
  | JObj "(string \<times> json) list"

datatype jserror = Error (message: string)

datatype jsonrpc_id = IdNull | IdNum int | IdStr string

record snap_data =
  snapId :: string
  sourceCode :: string

text \<open>
  A request names its method and carries that method's params; the two are one
  constructor here. \<open>ExecuteSnap\<close> carries a \<^verbatim>\<open>Partial<SnapData>\<close>,
  \<open>SnapRpc\<close> carries \<^verbatim>\<open>origin\<close>, \<^verbatim>\<open>request\<close> and \<^verbatim>\<open>target\<close>, and
  \<open>Unrecognized\<close> is any other method name.
\<close>

datatype rpc_command =
    Ping
  | ExecuteSnap "string option" "string option"
  | SnapRpc string json string
  | Unrecognized string

record rpc_request =
  q_id :: jsonrpc_id
  q_command :: rpc_command

text \<open>
  What the isolate writes on the command substream: a response (it has the id of a
  request) or an out-of-band error (it has an \<^verbatim>\<open>error\<close> and no id).
\<close>

record rpc_message =
  m_id :: jsonrpc_id
  m_result :: "json option"
  m_error :: "jserror option"

section \<open>The isolate side: \<^verbatim>\<open>Controller\<close> of SnapWorker.ts\<close>

text \<open>
  The snap's own handler is a function of \<^verbatim>\<open>(origin, request)\<close> whose promise
  resolves with a value or rejects with an error. Evaluating a snap's source in the
  compartment is outside the repository: what is seen of it from the controller is
  the sequence of calls the source makes to \<^verbatim>\<open>wallet.registerRpcMessageHandler\<close>
  and whether it ends by throwing. A \<open>compartment\<close> gives that sequence for each
  source text.
\<close>

datatype handler_outcome = Resolves json | Rejects jserror

type_synonym snap_rpc_handler = "string \<Rightarrow> json \<Rightarrow> handler_outcome"

datatype snap_effect = RegisterRpcMessageHandler snap_rpc_handler | Throw jserror

type_synonym compartment = "string \<Rightarrow> snap_effect list"

record controller =
  snapRpcHandlers :: "string \<rightharpoonup> snap_rpc_handler"

datatype response_obj = ResultObj json | ErrorObj jserror

definition respond :: "jsonrpc_id \<Rightarrow> response_obj \<Rightarrow> rpc_message" where
  "respond i obj =
     (case obj of
        ResultObj v \<Rightarrow> \<lparr>m_id = i, m_result = Some v, m_error = None\<rparr>
      | ErrorObj e \<Rightarrow> \<lparr>m_id = i, m_result = None, m_error = Some e\<rparr>)"

definition isTruthyString :: "string option \<Rightarrow> bool" where
  "isTruthyString v = (case v of None \<Rightarrow> False | Some s \<Rightarrow> s \<noteq> [])"

definition removeSnap :: "string \<Rightarrow> controller \<Rightarrow> controller" where
  "removeSnap sid c = c\<lparr>snapRpcHandlers := (snapRpcHandlers c)(sid := None)\<rparr>"

text \<open>
  \<^verbatim>\<open>registerRpcMessageHandler\<close> as \<^verbatim>\<open>createSnapProvider\<close> installs it on the snap's
  provider: a second registration for the same snap throws.
\<close>

definition registerRpcMessageHandler ::
  "string \<Rightarrow> snap_rpc_handler \<Rightarrow> controller \<Rightarrow> jserror + controller" where
  "registerRpcMessageHandler sid func c =
     (if snapRpcHandlers c sid \<noteq> None
      then Inl (Error ''RPC handler already registered.'')
      else Inr (c\<lparr>snapRpcHandlers := (snapRpcHandlers c)(sid \<mapsto> func)\<rparr>))"

text \<open>
  \<^verbatim>\<open>compartment.evaluate(sourceCode)\<close>: the effects of the source run in order; the
  first throw ends the evaluation. The result is the thrown error, if any, and the
  controller as the evaluation left it.
\<close>

fun evaluate :: "string \<Rightarrow> snap_effect list \<Rightarrow> controller \<Rightarrow> jserror option \<times> controller" where
  "evaluate sid [] c = (None, c)"
| "evaluate sid (RegisterRpcMessageHandler func # es) c =
     (case registerRpcMessageHandler sid func c of
        Inl err \<Rightarrow> (Some err, c)
      | Inr c' \<Rightarrow> evaluate sid es c')"
| "evaluate sid (Throw err # es) c = (Some err, c)"

text \<open>
  \<^verbatim>\<open>startSnap\<close> (SnapWorker.ts 173-206). Its \<^verbatim>\<open>catch\<close> removes the snap and logs; it
  does not throw again, so the result is never a thrown error.
\<close>

definition startSnap ::
  "compartment \<Rightarrow> string \<Rightarrow> string \<Rightarrow> controller \<Rightarrow> jserror option \<times> controller" where
  "startSnap cpt sid src c =
     (case evaluate sid (cpt src) c of
        (None, c') \<Rightarrow> (None, c')
      | (Some err, c') \<Rightarrow> (None, removeSnap sid c'))"

text \<open>\<^verbatim>\<open>Controller.executeSnap\<close> (SnapWorker.ts 144-161).\<close>

definition controller_executeSnap ::
  "compartment \<Rightarrow> jsonrpc_id \<Rightarrow> string option \<Rightarrow> string option \<Rightarrow> controller
     \<Rightarrow> rpc_message \<times> controller" where
  "controller_executeSnap cpt i sid src c =
     (if \<not> isTruthyString sid \<or> \<not> isTruthyString src
      then (respond i (ErrorObj (Error ''Invalid executeSnap parameters.'')), c)
      else (case (sid, src) of
              (Some s, Some code) \<Rightarrow>
                (case startSnap cpt s code c of
                   (None, c') \<Rightarrow> (respond i (ResultObj (JStr ''OK'')), c')
                 | (Some err, c') \<Rightarrow> (respond i (ErrorObj err), c'))
            | _ \<Rightarrow> (respond i (ErrorObj (Error ''Invalid executeSnap parameters.'')), c)))"

text \<open>\<^verbatim>\<open>Controller.handleSnapRpc\<close> (SnapWorker.ts 123-142).\<close>

definition handleSnapRpc ::
  "jsonrpc_id \<Rightarrow> string \<Rightarrow> json \<Rightarrow> string \<Rightarrow> controller \<Rightarrow> rpc_message" where
  "handleSnapRpc i requestOrigin request target c =
     (case snapRpcHandlers c target of
        None \<Rightarrow>
          respond i (ErrorObj (Error (''No RPC handler registered for snap \"'' @ target @ ''\".'')))
      | Some handler \<Rightarrow>
          (case handler requestOrigin request of
             Resolves result \<Rightarrow> respond i (ResultObj result)
           | Rejects err \<Rightarrow> respond i (ErrorObj err)))"

text \<open>
  \<^verbatim>\<open>Controller.onCommandRequest\<close> (SnapWorker.ts 77-113): a message without an id is
  logged and gets no response; every other message gets exactly one.
\<close>

definition onCommandRequest ::
  "compartment \<Rightarrow> rpc_request \<Rightarrow> controller \<Rightarrow> rpc_message option \<times> controller" where
  "onCommandRequest cpt msg c =
     (if q_id msg = IdNull then (None, c)
      else (case q_command msg of
              ExecuteSnap sid src \<Rightarrow>
                (case controller_executeSnap cpt (q_id msg) sid src c of
                   (r, c') \<Rightarrow> (Some r, c'))
            | Ping \<Rightarrow> (Some (respond (q_id msg) (ResultObj (JStr ''OK''))), c)
            | SnapRpc requestOrigin request target \<Rightarrow>
                (Some (handleSnapRpc (q_id msg) requestOrigin request target c), c)
            | Unrecognized name \<Rightarrow>
                (Some (respond (q_id msg)
                   (ErrorObj (Error (''Unrecognized command: '' @ name @ ''.'')))), c)))"

section \<open>The host side: \<^verbatim>\<open>IframeExecutionEnvironmentService\<close>\<close>

text \<open>
  A stream is an object in a store; a job holds references to its three streams.
  The listener that the service itself attaches is the out-of-band error handler of
  the command substream (it closes over the job id).
\<close>

datatype listener = ErrorHandler string

record stream =
  destroyed :: bool
  listeners :: "listener list"

record job_streams =
  command :: nat
  rpc :: "nat option"
  connection :: nat

record env_metadata =
  job_id :: string
  streams :: job_streams

text \<open>
  The RPC hook is a closure over \<^verbatim>\<open>snapId\<close> and \<^verbatim>\<open>jobId\<close>; it is kept as the
  pair it closes over and run by \<open>rpcHook\<close> below.
\<close>

record snap_rpc_hook =
  hook_snapId :: string
  hook_jobId :: string

datatype messenger_event =
    Unresponsive string
  | UnhandledError string jserror

datatype timer_callback =
    CreateWindowTimeout string
  | PollJobStatus string string
  | PingTimeout string

datatype api_call =
    ExecuteSnapCall snap_data
  | TerminateSnapCall string
  | TerminateAllSnapsCall
  | RpcHookCall snap_rpc_hook string json

text \<open>
  What a suspended \<^verbatim>\<open>await this._command(...)\<close> does with the response: the ping
  of \<^verbatim>\<open>_init\<close> (called from \<^verbatim>\<open>executeSnap\<close>), the \<^verbatim>\<open>executeSnap\<close> command, the
  ping of \<^verbatim>\<open>_getJobStatus\<close> (with the race it belongs to and the snap the poll is
  for), and the \<^verbatim>\<open>snapRpc\<close> command of a hook.
\<close>

datatype continuation =
    InitPing snap_data env_metadata
  | ExecuteCommand snap_data env_metadata
  | StatusPing nat string
  | HookCommand api_call

text \<open>
  The service's own fields keep their names. The rest of the record is the platform
  the service acts on: the iframes in the document body (by element id), the stream
  store, the pending timeouts (handle, delay and callback), the id generator
  \<^verbatim>\<open>nanoid\<close> (an arbitrary sequence of strings, read in order), whether a stream's
  \<^verbatim>\<open>destroy()\<close> throws, the publications on the messenger, the calls of
  \<^verbatim>\<open>setupSnapProvider\<close>, the \<^verbatim>\<open>_createWindow\<close> promises still pending, the requests
  written to command substreams and the continuations awaiting their responses, the
  liveness races not yet settled (each named by the handle of its timeout), and the
  promises the service has settled for its callers.
\<close>

record service =
  snapRpcHooks :: "string \<rightharpoonup> snap_rpc_hook"
  iframeUrl :: string
  jobs :: "(string \<times> env_metadata) list"
  snapToJobMap :: "string \<rightharpoonup> string"
  jobToSnapMap :: "string \<rightharpoonup> string"
  createWindowTimeout :: nat
  unresponsivePollingInterval :: nat
  unresponsiveTimeout :: nat
  timeoutForUnresponsiveMap :: "string \<rightharpoonup> nat"
  document_body :: "string list"
  stream_store :: "nat \<rightharpoonup> stream"
  next_stream :: nat
  destroy_throws :: "nat \<Rightarrow> bool"
  timers :: "nat \<rightharpoonup> (nat \<times> timer_callback)"
  next_timer :: nat
  nanoid_source :: "nat \<Rightarrow> string"
  nanoid_next :: nat
  published :: "messenger_event list"
  provider_setups :: "(string \<times> nat option) list"
  pending_windows :: "string \<rightharpoonup> (nat \<times> snap_data)"
  sent :: "(string \<times> rpc_request) list"
  inflight :: "(string \<times> jsonrpc_id) \<rightharpoonup> continuation"
  races :: "nat set"
  settled :: "(api_call \<times> (jserror + json option)) list"

text \<open>The constructor (part_001 72-91), with its three defaults.\<close>

record service_args =
  arg_iframeUrl :: string
  arg_unresponsivePollingInterval :: "nat option"
  arg_unresponsiveTimeout :: "nat option"
  arg_createWindowTimeout :: "nat option"

definition default_to :: "nat \<Rightarrow> nat option \<Rightarrow> nat" where
  "default_to d v = (case v of None \<Rightarrow> d | Some n \<Rightarrow> n)"

definition new_service :: "service_args \<Rightarrow> (nat \<Rightarrow> string) \<Rightarrow> (nat \<Rightarrow> bool) \<Rightarrow> service" where
  "new_service args ids throwing =
     \<lparr>snapRpcHooks = Map.empty,
      iframeUrl = arg_iframeUrl args,
      jobs = [],
      snapToJobMap = Map.empty,
      jobToSnapMap = Map.empty,
      createWindowTimeout = default_to 60000 (arg_createWindowTimeout args),
      unresponsivePollingInterval = default_to 5000 (arg_unresponsivePollingInterval args),
      unresponsiveTimeout = default_to 30000 (arg_unresponsiveTimeout args),
      timeoutForUnresponsiveMap = Map.empty,
      document_body = [],
      stream_store = Map.empty,
      next_stream = 0,
      destroy_throws = throwing,
      timers = Map.empty,
      next_timer = 1,
      nanoid_source = ids,
      nanoid_next = 0,
      published = [],
      provider_setups = [],
      pending_windows = Map.empty,
      sent = [],
      inflight = Map.empty,
      races = {},
      settled = []\<rparr>"

subsection \<open>Platform operations\<close>

definition nanoid :: "service \<Rightarrow> string \<times> service" where
  "nanoid st = (nanoid_source st (nanoid_next st), st\<lparr>nanoid_next := Suc (nanoid_next st)\<rparr>)"

definition setTimeout :: "timer_callback \<Rightarrow> nat \<Rightarrow> service \<Rightarrow> nat \<times> service" where
  "setTimeout cb delay st =
     (next_timer st,
      st\<lparr>timers := (timers st)(next_timer st \<mapsto> (delay, cb)),
         next_timer := Suc (next_timer st)\<rparr>)"

definition clearTimeout :: "nat option \<Rightarrow> service \<Rightarrow> service" where
  "clearTimeout h st =
     (case h of None \<Rightarrow> st | Some t \<Rightarrow> st\<lparr>timers := (timers st)(t := None)\<rparr>)"

definition publish :: "messenger_event \<Rightarrow> service \<Rightarrow> service" where
  "publish ev st = st\<lparr>published := published st @ [ev]\<rparr>"

definition settle :: "api_call \<Rightarrow> jserror + json option \<Rightarrow> service \<Rightarrow> service" where
  "settle call outcome st = st\<lparr>settled := settled st @ [(call, outcome)]\<rparr>"

text \<open>
  \<^verbatim>\<open>if (!x)\<close> on a value of type \<^verbatim>\<open>string | undefined\<close>: the empty string is as
  falsy as \<^verbatim>\<open>undefined\<close>. \<open>truthy_get m k\<close> is \<^verbatim>\<open>m.get(k)\<close> when it is truthy.
\<close>

definition truthy_get :: "('k \<rightharpoonup> string) \<Rightarrow> 'k \<Rightarrow> string option" where
  "truthy_get m k = (case m k of None \<Rightarrow> None | Some v \<Rightarrow> if v = [] then None else Some v)"

subsection \<open>The service's methods\<close>

definition setJob :: "string \<Rightarrow> env_metadata \<Rightarrow> service \<Rightarrow> service" where
  "setJob jobId jobWrapper st = st\<lparr>jobs := AList.update jobId jobWrapper (jobs st)\<rparr>"

definition deleteJob :: "string \<Rightarrow> service \<Rightarrow> service" where
  "deleteJob jobId st = st\<lparr>jobs := AList.delete jobId (jobs st)\<rparr>"

text \<open>
  \<^verbatim>\<open>_command\<close> (part_001 101-121) in its two halves: up to the \<^verbatim>\<open>await\<close> (the job
  is looked up and the message handed to the job's engine, which writes it to the
  command substream and keeps the continuation under the message's id), and from the
  response on. The message is an object by its type, so the first check of the
  method never fails.

  What \<^verbatim>\<open>rpcEngine.handle\<close> resolves with is not the message as the isolate wrote
  it. \<^verbatim>\<open>JsonRpcEngine\<close> (the library \<^verbatim>\<open>json-rpc-engine\<close>, imported in part_001 9-13)
  ends a request whose response has an \<^verbatim>\<open>error\<close> by replacing that error with
  \<^verbatim>\<open>serializeError(error)\<close>: for an \<^verbatim>\<open>Error\<close> object the serialized error keeps
  the message when it is a non-empty string and takes the message of the engine's
  fallback error, \<^verbatim>\<open>Internal JSON-RPC error.\<close>, otherwise. So
  \<^verbatim>\<open>response.error.message\<close> in line 118 is the serialized message. Every message
  of the model has a \<^verbatim>\<open>result\<close> or an \<^verbatim>\<open>error\<close> key, as has every message that
  \<^verbatim>\<open>respond\<close> of the controller writes; \<open>m_result = None\<close> without an error is
  \<^verbatim>\<open>{result: undefined}\<close>, which the engine passes on and \<^verbatim>\<open>_command\<close> returns.
\<close>

definition serializeError :: "jserror \<Rightarrow> jserror" where
  "serializeError e = (if message e = [] then Error ''Internal JSON-RPC error.'' else e)"

definition command_send ::
  "string \<Rightarrow> rpc_request \<Rightarrow> continuation \<Rightarrow> service \<Rightarrow> (jserror + unit) \<times> service" where
  "command_send jobId msg k st =
     (case map_of (jobs st) jobId of
        None \<Rightarrow> (Inl (Error (''Job with id \"'' @ jobId @ ''\" not found.'')), st)
      | Some jobWrapper \<Rightarrow>
          (Inr (), st\<lparr>sent := sent st @ [(jobId, msg)],
                      inflight := (inflight st)((jobId, q_id msg) \<mapsto> k)\<rparr>))"

definition command_result :: "rpc_message \<Rightarrow> jserror + json option" where
  "command_result response =
     (case m_error response of
        Some e \<Rightarrow> Inl (Error (message (serializeError e)))
      | None \<Rightarrow> Inr (m_result response))"

definition removeSnapHooks :: "string \<Rightarrow> service \<Rightarrow> service" where
  "removeSnapHooks sid st = st\<lparr>snapRpcHooks := (snapRpcHooks st)(sid := None)\<rparr>"

definition createSnapHooks :: "string \<Rightarrow> string \<Rightarrow> service \<Rightarrow> service" where
  "createSnapHooks sid jobId st =
     st\<lparr>snapRpcHooks := (snapRpcHooks st)(sid \<mapsto> \<lparr>hook_snapId = sid, hook_jobId = jobId\<rparr>)\<rparr>"

definition mapSnapAndJob :: "string \<Rightarrow> string \<Rightarrow> service \<Rightarrow> service" where
  "mapSnapAndJob sid jobId st =
     st\<lparr>snapToJobMap := (snapToJobMap st)(sid \<mapsto> jobId),
        jobToSnapMap := (jobToSnapMap st)(jobId \<mapsto> sid)\<rparr>"

definition removeSnapAndJobMapping :: "string \<Rightarrow> service \<Rightarrow> (jserror + unit) \<times> service" where
  "removeSnapAndJobMapping jobId st =
     (case truthy_get (jobToSnapMap st) jobId of
        None \<Rightarrow> (Inl (Error (''job: \"'' @ jobId @ ''\" has no mapped snap.'')), st)
      | Some sid \<Rightarrow>
          (Inr (),
           removeSnapHooks sid
             (st\<lparr>jobToSnapMap := (jobToSnapMap st)(jobId := None),
                 snapToJobMap := (snapToJobMap st)(sid := None)\<rparr>)))"

text \<open>
  The body of the \<^verbatim>\<open>forEach\<close> in \<^verbatim>\<open>terminate\<close> (part_001 151-160), for one entry
  of \<^verbatim>\<open>jobWrapper.streams\<close>: a \<^verbatim>\<open>null\<close> or already destroyed stream is skipped; a
  \<^verbatim>\<open>destroy()\<close> that throws is caught and logged, and the stream is left as it
  was.
\<close>

definition destroy_stream :: "nat option \<Rightarrow> service \<Rightarrow> service" where
  "destroy_stream r st =
     (case r of
        None \<Rightarrow> st
      | Some a \<Rightarrow>
          (case stream_store st a of
             None \<Rightarrow> st
           | Some s \<Rightarrow>
               if destroyed s then st
               else if destroy_throws st a then st
               else st\<lparr>stream_store :=
                        (stream_store st)(a \<mapsto> s\<lparr>destroyed := True, listeners := []\<rparr>)\<rparr>))"

definition destroy_streams :: "job_streams \<Rightarrow> service \<Rightarrow> service" where
  "destroy_streams ss st =
     destroy_stream (Some (connection ss))
       (destroy_stream (rpc ss)
          (destroy_stream (Some (command ss)) st))"

text \<open>\<^verbatim>\<open>terminate\<close> (part_001 138-167).\<close>

definition terminate :: "string \<Rightarrow> service \<Rightarrow> (jserror + unit) \<times> service" where
  "terminate jobId st =
     (case map_of (jobs st) jobId of
        None \<Rightarrow> (Inl (Error (''Job with id \"'' @ jobId @ ''\" not found.'')), st)
      | Some jobWrapper \<Rightarrow>
          (case truthy_get (jobToSnapMap st) jobId of
             None \<Rightarrow>
               (Inl (Error (''Failed to find a snap for job with id \"'' @ jobId @ ''\"'')), st)
           | Some sid \<Rightarrow>
               (let st1 = destroy_streams (streams jobWrapper) st;
                    st2 = st1\<lparr>document_body := remove1 (job_id jobWrapper) (document_body st1)\<rparr>;
                    st3 = clearTimeout (timeoutForUnresponsiveMap st2 sid) st2;
                    st4 = st3\<lparr>timeoutForUnresponsiveMap :=
                                (timeoutForUnresponsiveMap st3)(sid := None)\<rparr>
                in (case removeSnapAndJobMapping jobId st4 of
                      (Inl e, st5) \<Rightarrow> (Inl e, st5)
                    | (Inr u, st5) \<Rightarrow> (Inr (), deleteJob jobId st5)))))"

text \<open>
  \<^verbatim>\<open>terminateAllSnaps\<close> (part_001 123-128): the loop over \<^verbatim>\<open>this.jobs.keys()\<close>
  in insertion order; each round deletes only its own key. A throw ends the loop and
  the method, so the hooks are then not cleared.
\<close>

fun terminate_each :: "string list \<Rightarrow> service \<Rightarrow> (jserror + unit) \<times> service" where
  "terminate_each [] st = (Inr (), st)"
| "terminate_each (jobId # rest) st =
     (case terminate jobId st of
        (Inl e, st') \<Rightarrow> (Inl e, st')
      | (Inr u, st') \<Rightarrow> terminate_each rest st')"

definition terminateAllSnaps :: "service \<Rightarrow> (jserror + unit) \<times> service" where
  "terminateAllSnaps st =
     (case terminate_each (map fst (jobs st)) st of
        (Inl e, st') \<Rightarrow> (Inl e, st')
      | (Inr u, st') \<Rightarrow> (Inr (), st'\<lparr>snapRpcHooks := Map.empty\<rparr>))"

text \<open>\<^verbatim>\<open>terminateSnap\<close> (part_001 130-136).\<close>

definition terminateSnap :: "string \<Rightarrow> service \<Rightarrow> (jserror + unit) \<times> service" where
  "terminateSnap sid st =
     (case truthy_get (snapToJobMap st) sid of
        None \<Rightarrow> (Inl (Error (''Job not found for snap with id \"'' @ sid @ ''\".'')), st)
      | Some jobId \<Rightarrow> terminate jobId st)"

text \<open>\<^verbatim>\<open>getRpcMessageHandler\<close> (part_001 174-176).\<close>

definition getRpcMessageHandler :: "string \<Rightarrow> service \<Rightarrow> snap_rpc_hook option" where
  "getRpcMessageHandler sid st = snapRpcHooks st sid"

text \<open>
  The hook that \<^verbatim>\<open>_createSnapHooks\<close> builds (part_001 183-197), up to its
  \<^verbatim>\<open>await\<close>: a fresh id, then \<^verbatim>\<open>_command\<close> with a \<^verbatim>\<open>snapRpc\<close> message.
\<close>

definition rpcHook :: "snap_rpc_hook \<Rightarrow> string \<Rightarrow> json \<Rightarrow> service \<Rightarrow> service" where
  "rpcHook hook origin request st =
     (case nanoid st of
        (i, st1) \<Rightarrow>
          (case command_send (hook_jobId hook)
                  \<lparr>q_id = IdStr i, q_command = SnapRpc origin request (hook_snapId hook)\<rparr>
                  (HookCommand (RpcHookCall hook origin request)) st1 of
             (Inl e, st2) \<Rightarrow> settle (RpcHookCall hook origin request) (Inl e) st2
           | (Inr u, st2) \<Rightarrow> st2))"

text \<open>
  \<^verbatim>\<open>_pollForJobStatus\<close> (part_001 233-249): the timer is set and its handle stored
  under the snap.
\<close>

definition pollForJobStatus :: "string \<Rightarrow> service \<Rightarrow> (jserror + unit) \<times> service" where
  "pollForJobStatus sid st =
     (case truthy_get (snapToJobMap st) sid of
        None \<Rightarrow> (Inl (Error ''no job id found for snap''), st)
      | Some jobId \<Rightarrow>
          (case setTimeout (PollJobStatus sid jobId) (unresponsivePollingInterval st) st of
             (h, st1) \<Rightarrow>
               (Inr (), st1\<lparr>timeoutForUnresponsiveMap :=
                             (timeoutForUnresponsiveMap st1)(sid \<mapsto> h)\<rparr>)))"

text \<open>
  The callback of that timer (part_001 239-246) with \<^verbatim>\<open>_getJobStatus\<close> (251-276)
  up to the \<^verbatim>\<open>await\<close>: the timeout of the race is set, then the ping is sent. When
  \<^verbatim>\<open>_command\<close> rejects at once the race is lost at once and \<^verbatim>\<open>unresponsive\<close> is
  published; the timeout stays set and later finds the race settled.
\<close>

definition poll_fired :: "string \<Rightarrow> string \<Rightarrow> service \<Rightarrow> service" where
  "poll_fired sid jobId st =
     (case setTimeout (PingTimeout sid) (unresponsiveTimeout st) st of
        (h, st1) \<Rightarrow>
          (case nanoid st1 of
             (i, st2) \<Rightarrow>
               (case command_send jobId \<lparr>q_id = IdStr i, q_command = Ping\<rparr>
                       (StatusPing h sid) st2 of
                  (Inl e, st3) \<Rightarrow> publish (Unresponsive sid) st3
                | (Inr u, st3) \<Rightarrow> st3\<lparr>races := insert h (races st3)\<rparr>)))"

text \<open>The timeout of a race fires (part_001 260-262, 244-246).\<close>

definition ping_timeout_fired :: "nat \<Rightarrow> string \<Rightarrow> service \<Rightarrow> service" where
  "ping_timeout_fired h sid st =
     (if h \<in> races st
      then publish (Unresponsive sid) (st\<lparr>races := races st - {h}\<rparr>)
      else st)"

text \<open>
  The response to the ping of a race arrives (part_001 264-275, 240-246). An error
  response rejects the race; a success clears the timeout, wins the race if it is
  still open, and then \<^verbatim>\<open>_pollForJobStatus\<close> runs again inside the \<^verbatim>\<open>then\<close>, whose
  throw the \<^verbatim>\<open>catch\<close> after it turns into a publication.
\<close>

definition status_response :: "nat \<Rightarrow> string \<Rightarrow> rpc_message \<Rightarrow> service \<Rightarrow> service" where
  "status_response h sid response st =
     (case command_result response of
        Inl e \<Rightarrow>
          (if h \<in> races st
           then publish (Unresponsive sid) (st\<lparr>races := races st - {h}\<rparr>)
           else st)
      | Inr v \<Rightarrow>
          (let st1 = clearTimeout (Some h) st in
           if h \<in> races st
           then (case pollForJobStatus sid (st1\<lparr>races := races st1 - {h}\<rparr>) of
                   (Inl e, st2) \<Rightarrow> publish (Unresponsive sid) st2
                 | (Inr u, st2) \<Rightarrow> st2)
           else st1))"

text \<open>
  \<^verbatim>\<open>errorHandler\<close> in \<^verbatim>\<open>_initStreams\<close> (part_001 340-355), as a listener of the
  command substream \<open>cs\<close> of job \<open>jobId\<close>.
\<close>

definition errorHandler :: "string \<Rightarrow> nat \<Rightarrow> rpc_message \<Rightarrow> service \<Rightarrow> service" where
  "errorHandler jobId cs data st =
     (case m_error data of
        Some err \<Rightarrow>
          (if m_id data = IdNull
           then (let st1 = (case truthy_get (jobToSnapMap st) jobId of
                              Some sid \<Rightarrow> publish (UnhandledError sid err) st
                            | None \<Rightarrow> st)
                 in (case stream_store st1 cs of
                       None \<Rightarrow> st1
                     | Some s \<Rightarrow>
                         st1\<lparr>stream_store :=
                               (stream_store st1)
                                 (cs \<mapsto> s\<lparr>listeners := remove1 (ErrorHandler jobId) (listeners s)\<rparr>)\<rparr>))
           else st)
      | None \<Rightarrow> st)"

text \<open>
  \<^verbatim>\<open>executeSnap\<close> (part_001 202-231) runs in four turns of the event loop. The
  first: the guard, then \<^verbatim>\<open>_init\<close> mints the job id and \<^verbatim>\<open>_createWindow\<close>
  (367-388) sets its timeout and appends the iframe. A result \<open>Inl\<close> is the
  rejection of the guard; \<open>Inr\<close> means the call is suspended.
\<close>

definition createWindow :: "string \<Rightarrow> snap_data \<Rightarrow> service \<Rightarrow> service" where
  "createWindow jobId d st =
     (case setTimeout (CreateWindowTimeout jobId) (createWindowTimeout st) st of
        (h, st1) \<Rightarrow>
          st1\<lparr>document_body := document_body st1 @ [jobId],
              pending_windows := (pending_windows st1)(jobId \<mapsto> (h, d))\<rparr>)"

definition executeSnap :: "snap_data \<Rightarrow> service \<Rightarrow> (jserror + unit) \<times> service" where
  "executeSnap d st =
     (if snapToJobMap st (snapId d) \<noteq> None
      then (Inl (Error (''Snap \"'' @ snapId d @ ''\" is already being executed.'')), st)
      else (case nanoid st of (jobId, st1) \<Rightarrow> (Inr (), createWindow jobId d st1)))"

text \<open>
  The timeout of \<^verbatim>\<open>_createWindow\<close> fires (part_001 374-377): the iframe is removed
  and the promise rejected, which rejects \<^verbatim>\<open>executeSnap\<close>.
\<close>

definition createWindow_timeout :: "string \<Rightarrow> service \<Rightarrow> service" where
  "createWindow_timeout jobId st =
     (let st1 = st\<lparr>document_body := remove1 jobId (document_body st)\<rparr> in
      case pending_windows st1 jobId of
        None \<Rightarrow> st1
      | Some (h, d) \<Rightarrow>
          settle (ExecuteSnapCall d)
            (Inl (Error (''Timed out creating iframe window: \"'' @ iframeUrl st1 @ ''\"'')))
            (st1\<lparr>pending_windows := (pending_windows st1)(jobId := None)\<rparr>))"

text \<open>
  The second turn: the iframe's \<^verbatim>\<open>load\<close> event with a content window (part_001
  378-383) resolves \<^verbatim>\<open>_createWindow\<close>; \<^verbatim>\<open>_initStreams\<close> (327-364) builds the
  transport and the two substreams and attaches \<^verbatim>\<open>errorHandler\<close>; \<^verbatim>\<open>_init\<close>
  (297-316) records the job and sends its ping.
\<close>

definition initStreams :: "string \<Rightarrow> service \<Rightarrow> job_streams \<times> service" where
  "initStreams jobId st =
     (let n = next_stream st in
      (\<lparr>command = Suc n, rpc = Some (Suc (Suc n)), connection = n\<rparr>,
       st\<lparr>stream_store :=
            (stream_store st)
              (n \<mapsto> \<lparr>destroyed = False, listeners = []\<rparr>,
               Suc n \<mapsto> \<lparr>destroyed = False, listeners = [ErrorHandler jobId]\<rparr>,
               Suc (Suc n) \<mapsto> \<lparr>destroyed = False, listeners = []\<rparr>),
          next_stream := Suc (Suc (Suc n))\<rparr>))"

definition init_loaded :: "string \<Rightarrow> snap_data \<Rightarrow> service \<Rightarrow> service" where
  "init_loaded jobId d st =
     (case initStreams jobId st of
        (ss, st1) \<Rightarrow>
          (let envMetadata = \<lparr>job_id = jobId, streams = ss\<rparr>;
               st2 = setJob jobId envMetadata st1
           in (case nanoid st2 of
                 (i, st3) \<Rightarrow>
                   (case command_send jobId \<lparr>q_id = IdStr i, q_command = Ping\<rparr>
                           (InitPing d envMetadata) st3 of
                      (Inl e, st4) \<Rightarrow> settle (ExecuteSnapCall d) (Inl e) st4
                    | (Inr u, st4) \<Rightarrow> st4))))"

definition iframe_loaded :: "string \<Rightarrow> service \<Rightarrow> service" where
  "iframe_loaded jobId st =
     (case pending_windows st jobId of
        None \<Rightarrow> st
      | Some (h, d) \<Rightarrow>
          init_loaded jobId d
            (clearTimeout (Some h) (st\<lparr>pending_windows := (pending_windows st)(jobId := None)\<rparr>)))"

text \<open>
  The \<^verbatim>\<open>catch\<close> of \<^verbatim>\<open>executeSnap\<close> (part_001 218-221): terminate the job and
  throw the error again; when \<^verbatim>\<open>terminate\<close> itself throws, that error is the one
  the caller sees.
\<close>

definition executeSnap_failed :: "snap_data \<Rightarrow> env_metadata \<Rightarrow> jserror \<Rightarrow> service \<Rightarrow> service" where
  "executeSnap_failed d job err st =
     (case terminate (job_id job) st of
        (Inl e, st1) \<Rightarrow> settle (ExecuteSnapCall d) (Inl e) st1
      | (Inr u, st1) \<Rightarrow> settle (ExecuteSnapCall d) (Inl err) st1)"

text \<open>
  The third turn: the response to the ping of \<^verbatim>\<open>_init\<close> arrives. An error rejects
  \<^verbatim>\<open>_init\<close> and with it \<^verbatim>\<open>executeSnap\<close> (no handler stands in between). Otherwise
  \<^verbatim>\<open>executeSnap\<close> goes on (part_001 208-217): the mapping is recorded and the
  \<^verbatim>\<open>executeSnap\<close> command sent.
\<close>

definition executeSnap_spawned :: "snap_data \<Rightarrow> env_metadata \<Rightarrow> service \<Rightarrow> service" where
  "executeSnap_spawned d job st =
     (let st1 = mapSnapAndJob (snapId d) (job_id job) st in
      case nanoid st1 of
        (i, st2) \<Rightarrow>
          (case command_send (job_id job)
                  \<lparr>q_id = IdStr i,
                   q_command = ExecuteSnap (Some (snapId d)) (Some (sourceCode d))\<rparr>
                  (ExecuteCommand d job) st2 of
             (Inl e, st3) \<Rightarrow> executeSnap_failed d job e st3
           | (Inr u, st3) \<Rightarrow> st3))"

definition init_ping_response ::
  "snap_data \<Rightarrow> env_metadata \<Rightarrow> rpc_message \<Rightarrow> service \<Rightarrow> service" where
  "init_ping_response d job response st =
     (case command_result response of
        Inl e \<Rightarrow> settle (ExecuteSnapCall d) (Inl e) st
      | Inr v \<Rightarrow> executeSnap_spawned d job st)"

text \<open>
  The fourth turn: the response to the \<^verbatim>\<open>executeSnap\<close> command arrives (part_001
  218-230).
\<close>

definition executeSnap_response ::
  "snap_data \<Rightarrow> env_metadata \<Rightarrow> rpc_message \<Rightarrow> service \<Rightarrow> service" where
  "executeSnap_response d job response st =
     (case command_result response of
        Inl e \<Rightarrow> executeSnap_failed d job e st
      | Inr result \<Rightarrow>
          (let st1 = st\<lparr>provider_setups :=
                         provider_setups st @ [(snapId d, rpc (streams job))]\<rparr> in
           case pollForJobStatus (snapId d) st1 of
             (Inl e, st2) \<Rightarrow> settle (ExecuteSnapCall d) (Inl e) st2
           | (Inr u, st2) \<Rightarrow>
               settle (ExecuteSnapCall d) (Inr result)
                 (createSnapHooks (snapId d) (job_id job) st2)))"

subsection \<open>The event loop\<close>

text \<open>
  One turn of the host's event loop is one event: a call of the public interface, a
  call of a hook by whoever holds it, the \<^verbatim>\<open>load\<close> of a job's iframe, a timer that
  fires, or a message that arrives on a job's command substream.
\<close>

datatype event =
    ExecuteSnapCalled snap_data
  | TerminateSnapCalled string
  | TerminateAllSnapsCalled
  | RpcHookCalled snap_rpc_hook string json
  | IframeLoaded string
  | TimerFired nat
  | CommandData string rpc_message

definition resume :: "continuation \<Rightarrow> rpc_message \<Rightarrow> service \<Rightarrow> service" where
  "resume k response st =
     (case k of
        InitPing d job \<Rightarrow> init_ping_response d job response st
      | ExecuteCommand d job \<Rightarrow> executeSnap_response d job response st
      | StatusPing h sid \<Rightarrow> status_response h sid response st
      | HookCommand call \<Rightarrow> settle call (command_result response) st)"

definition run_listener :: "nat \<Rightarrow> rpc_message \<Rightarrow> listener \<Rightarrow> service \<Rightarrow> service" where
  "run_listener cs data l st = (case l of ErrorHandler jobId \<Rightarrow> errorHandler jobId cs data st)"

text \<open>
  A \<^verbatim>\<open>data\<close> event on a stream: nothing is delivered on a destroyed stream;
  otherwise the listeners attached at that moment run in order.
\<close>

definition emit_data :: "nat \<Rightarrow> rpc_message \<Rightarrow> service \<Rightarrow> service" where
  "emit_data cs data st =
     (case stream_store st cs of
        None \<Rightarrow> st
      | Some s \<Rightarrow>
          if destroyed s then st
          else fold (run_listener cs data) (listeners s) st)"

text \<open>
  A message arrives on the command substream of a job. The stream's listeners run
  first (\<^verbatim>\<open>errorHandler\<close> was attached in \<^verbatim>\<open>_initStreams\<close>, before \<^verbatim>\<open>_init\<close> piped
  the substream into the engine's stream, part_001 301). Then the message reaches the
  stream of \<^verbatim>\<open>createStreamMiddleware\<close> (the library \<^verbatim>\<open>json-rpc-middleware-stream\<close>,
  part_001 7 and 299-303). That stream takes a message whose id is falsy
  (\<^verbatim>\<open>!res.id\<close>: \<^verbatim>\<open>null\<close>, \<^verbatim>\<open>undefined\<close>, \<^verbatim>\<open>0\<close>, the empty string) for a
  notification, to which the service does not listen. Any other message is a
  response: the continuation kept under its id is resumed; when there is none the
  stream fails with \<^verbatim>\<open>Unknown response id\<close>, and \<^verbatim>\<open>pump\<close> (part_001 301) destroys
  the streams it joins, among them the command substream. \<^verbatim>\<open>pump\<close> removes no
  listeners, and its \<^verbatim>\<open>destroy()\<close> is taken not to throw (\<open>destroy_throws\<close> is
  about the calls in \<^verbatim>\<open>terminate\<close>).
\<close>

definition falsy_id :: "jsonrpc_id \<Rightarrow> bool" where
  "falsy_id i = (case i of IdNull \<Rightarrow> True | IdNum n \<Rightarrow> n = 0 | IdStr s \<Rightarrow> s = [])"

definition pump_destroys :: "nat \<Rightarrow> service \<Rightarrow> service" where
  "pump_destroys a st =
     (case stream_store st a of
        None \<Rightarrow> st
      | Some s \<Rightarrow> st\<lparr>stream_store := (stream_store st)(a \<mapsto> s\<lparr>destroyed := True\<rparr>)\<rparr>)"

definition command_data :: "string \<Rightarrow> rpc_message \<Rightarrow> service \<Rightarrow> service" where
  "command_data jobId data st =
     (case map_of (jobs st) jobId of
        None \<Rightarrow> st
      | Some job \<Rightarrow>
          (case stream_store st (command (streams job)) of
             None \<Rightarrow> st
           | Some s \<Rightarrow>
               if destroyed s then st
               else (let st1 = emit_data (command (streams job)) data st in
                     if falsy_id (m_id data) then st1
                     else (case inflight st1 (jobId, m_id data) of
                             None \<Rightarrow> pump_destroys (command (streams job)) st1
                           | Some k \<Rightarrow>
                               resume k data
                                 (st1\<lparr>inflight := (inflight st1)((jobId, m_id data) := None)\<rparr>)))))"

definition timer_fired :: "nat \<Rightarrow> service \<Rightarrow> service" where
  "timer_fired h st =
     (case timers st h of
        None \<Rightarrow> st
      | Some (delay, cb) \<Rightarrow>
          (let st1 = st\<lparr>timers := (timers st)(h := None)\<rparr> in
           case cb of
             CreateWindowTimeout jobId \<Rightarrow> createWindow_timeout jobId st1
           | PollJobStatus sid jobId \<Rightarrow> poll_fired sid jobId st1
           | PingTimeout sid \<Rightarrow> ping_timeout_fired h sid st1))"

definition settle_unit :: "api_call \<Rightarrow> (jserror + unit) \<times> service \<Rightarrow> service" where
  "settle_unit call r =
     (case r of
        (Inl e, st) \<Rightarrow> settle call (Inl e) st
      | (Inr u, st) \<Rightarrow> settle call (Inr None) st)"

definition step :: "service \<Rightarrow> event \<Rightarrow> service" where
  "step st ev =
     (case ev of
        ExecuteSnapCalled d \<Rightarrow>
          (case executeSnap d st of
             (Inl e, st1) \<Rightarrow> settle (ExecuteSnapCall d) (Inl e) st1
           | (Inr u, st1) \<Rightarrow> st1)
      | TerminateSnapCalled sid \<Rightarrow> settle_unit (TerminateSnapCall sid) (terminateSnap sid st)
      | TerminateAllSnapsCalled \<Rightarrow> settle_unit TerminateAllSnapsCall (terminateAllSnaps st)
      | RpcHookCalled hook origin request \<Rightarrow> rpcHook hook origin request st
      | IframeLoaded jobId \<Rightarrow> iframe_loaded jobId st
      | TimerFired h \<Rightarrow> timer_fired h st
      | CommandData jobId data \<Rightarrow> command_data jobId data st)"

definition run :: "service \<Rightarrow> event list \<Rightarrow> service" where
  "run st evs = foldl step st evs"

section \<open>Whole calls, one after the other\<close>

text \<open>
  A call of \<^verbatim>\<open>executeSnap\<close> that runs to its end before the next call starts is
  a run of events: the call, then what the platform and the isolate do about it.
  \<open>answer_last\<close> delivers a response to the request written last, on the command
  substream it was written to.
\<close>

definition answer_last :: "json option \<Rightarrow> jserror option \<Rightarrow> service \<Rightarrow> service" where
  "answer_last res err st =
     (case rev (sent st) of
        [] \<Rightarrow> st
      | (jobId, q) # earlier \<Rightarrow>
          step st (CommandData jobId \<lparr>m_id = q_id q, m_result = res, m_error = err\<rparr>))"

text \<open>
  The same with the isolate's own controller in the loop: the request written last
  is handled by \<open>onCommandRequest\<close> and the response, if there is one, delivered.
\<close>

definition isolate_answers :: "compartment \<Rightarrow> controller \<Rightarrow> service \<Rightarrow> controller \<times> service" where
  "isolate_answers cpt c st =
     (case rev (sent st) of
        [] \<Rightarrow> (c, st)
      | (jobId, q) # earlier \<Rightarrow>
          (case onCommandRequest cpt q c of
             (None, c') \<Rightarrow> (c', st)
           | (Some r, c') \<Rightarrow> (c', step st (CommandData jobId r))))"

datatype isolate_behaviour =
    WindowTimesOut
  | PingFails jserror
  | ExecuteFails jserror
  | ExecuteSucceeds json

definition executeSnap_call :: "snap_data \<Rightarrow> isolate_behaviour \<Rightarrow> service \<Rightarrow> service" where
  "executeSnap_call d b st =
     (if snapToJobMap st (snapId d) \<noteq> None then step st (ExecuteSnapCalled d)
      else (let jobId = fst (nanoid st);
                st1 = step st (ExecuteSnapCalled d)
            in case b of
                 WindowTimesOut \<Rightarrow>
                   (case pending_windows st1 jobId of
                      None \<Rightarrow> st1
                    | Some (h, d') \<Rightarrow> step st1 (TimerFired h))
               | PingFails e \<Rightarrow>
                   answer_last None (Some e) (step st1 (IframeLoaded jobId))
               | ExecuteFails e \<Rightarrow>
                   answer_last None (Some e)
                     (answer_last (Some (JStr ''OK'')) None (step st1 (IframeLoaded jobId)))
               | ExecuteSucceeds v \<Rightarrow>
                   answer_last (Some v) None
                     (answer_last (Some (JStr ''OK'')) None (step st1 (IframeLoaded jobId)))))"

text \<open>
  Between two calls the event loop goes on: timers fire, hooks are called, and
  messages arrive on command substreams, among them the responses to the pings of
  the liveness loop and to the hooks' commands. \<open>between_calls\<close> holds for these
  turns: every event but a call of the public interface, the load of an iframe, and
  a response to a command that an \<^verbatim>\<open>executeSnap\<close> awaits (no such call is under
  way between whole calls).
\<close>

definition between_calls :: "service \<Rightarrow> event \<Rightarrow> bool" where
  "between_calls st ev =
     (case ev of
        TimerFired h \<Rightarrow> True
      | RpcHookCalled hook origin request \<Rightarrow> True
      | CommandData jobId data \<Rightarrow>
          (case inflight st (jobId, m_id data) of
             Some (InitPing d job) \<Rightarrow> False
           | Some (ExecuteCommand d job) \<Rightarrow> False
           | _ \<Rightarrow> True)
      | _ \<Rightarrow> False)"

datatype api =
    Execute snap_data isolate_behaviour
  | Terminate string
  | Between event

fun call :: "api \<Rightarrow> service \<Rightarrow> service" where
  "call (Execute d b) st = executeSnap_call d b st"
| "call (Terminate sid) st = step st (TerminateSnapCalled sid)"
| "call (Between ev) st = step st ev"

fun run_calls :: "service \<Rightarrow> api list \<Rightarrow> service" where
  "run_calls st [] = st"
| "run_calls st (c # cs) = run_calls (call c st) cs"

text \<open>
  The contract of a sequence of calls: no \<^verbatim>\<open>executeSnap\<close> for a snap that is
  executing, no \<^verbatim>\<open>terminateSnap\<close> for one that is not. Besides, the snap id is
  not the empty string, and the three ids that \<^verbatim>\<open>nanoid\<close> mints for the call (for
  the job, the ping and the \<^verbatim>\<open>executeSnap\<close> command) are not empty, the first not
  being the id of a job that is mapped to a snap. What happens in between is a turn
  between calls.
\<close>

fun obeys :: "service \<Rightarrow> api list \<Rightarrow> bool" where
  "obeys st [] = True"
| "obeys st (Execute d b # cs) =
     (snapToJobMap st (snapId d) = None \<and> snapId d \<noteq> [] \<and>
      fst (nanoid st) \<noteq> [] \<and> jobToSnapMap st (fst (nanoid st)) = None \<and>
      nanoid_source st (Suc (nanoid_next st)) \<noteq> [] \<and>
      nanoid_source st (Suc (Suc (nanoid_next st))) \<noteq> [] \<and>
      obeys (call (Execute d b) st) cs)"
| "obeys st (Terminate sid # cs) =
     (snapToJobMap st sid \<noteq> None \<and> obeys (call (Terminate sid) st) cs)"
| "obeys st (Between ev # cs) =
     (between_calls st ev \<and> obeys (call (Between ev) st) cs)"

text \<open>
  The invariant of the service's maps between calls: \<^verbatim>\<open>jobs\<close> has one entry for
  a key (it is a \<^verbatim>\<open>Map\<close>), the two directions of the mapping are inverse to each
  other, mapped ids are not empty, a mapped job is a job of the service, hooks exist
  for exactly the mapped snaps, and liveness timers are stored for mapped snaps
  only.
\<close>

definition consistent :: "service \<Rightarrow> bool" where
  "consistent st =
     (distinct (map fst (jobs st)) \<and>
      (\<forall>sid jobId. snapToJobMap st sid = Some jobId \<longleftrightarrow> jobToSnapMap st jobId = Some sid) \<and>
      (\<forall>sid jobId. snapToJobMap st sid = Some jobId \<longrightarrow>
          sid \<noteq> [] \<and> jobId \<noteq> [] \<and> map_of (jobs st) jobId \<noteq> None) \<and>
      (\<forall>sid. snapRpcHooks st sid \<noteq> None \<longleftrightarrow> snapToJobMap st sid \<noteq> None) \<and>
      (\<forall>sid. timeoutForUnresponsiveMap st sid \<noteq> None \<longrightarrow> snapToJobMap st sid \<noteq> None))"

text \<open>Every job of the service is mapped to a snap.\<close>

definition all_jobs_mapped :: "service \<Rightarrow> bool" where
  "all_jobs_mapped st = (\<forall>jobId \<in> set (map fst (jobs st)). jobToSnapMap st jobId \<noteq> None)"

section \<open>A concrete service\<close>

text \<open>
  A service with the default settings, an id generator that never repeats itself,
  and streams whose \<^verbatim>\<open>destroy()\<close> does not throw. The compartment knows these
  sources: one registers a handler that returns the \<^verbatim>\<open>method\<close> of the request,
  one registers a handler that throws an error with an empty message, the others
  throw.
\<close>

definition example_ids :: "nat \<Rightarrow> string" where
  "example_ids n = ''id-'' @ replicate n (CHR ''i'')"

definition example_service :: service where
  "example_service =
     new_service
       \<lparr>arg_iframeUrl = ''https://execution.example/'',
        arg_unresponsivePollingInterval = None,
        arg_unresponsiveTimeout = None,
        arg_createWindowTimeout = None\<rparr>
       example_ids (\<lambda>a. False)"

definition method_handler :: snap_rpc_handler where
  "method_handler origin request =
     (case request of
        JObj props \<Rightarrow>
          (case map_of props ''method'' of
             None \<Rightarrow> Rejects (Error ''no method'')
           | Some v \<Rightarrow> Resolves v)
      | _ \<Rightarrow> Rejects (Error ''not an object''))"

definition mute_handler :: snap_rpc_handler where
  "mute_handler origin request = Rejects (Error [])"

definition example_compartment :: compartment where
  "example_compartment src =
     (if src = ''wallet.registerRpcMessageHandler(async (o,r)=>r.method)''
      then [RegisterRpcMessageHandler method_handler]
      else if src = ''wallet.registerRpcMessageHandler(async () => { throw new Error(\"\") })''
      then [RegisterRpcMessageHandler mute_handler]
      else if src = ''wallet.registerRpcMessageHandler(f); throw new Error(\"boom\")''
      then [RegisterRpcMessageHandler method_handler, Throw (Error ''boom'')]
      else if src = ''throw new Error(\"boom\")''
      then [Throw (Error ''boom'')]
      else [])"

definition snap_A :: snap_data where
  "snap_A = \<lparr>snapId = ''A'', sourceCode = ''wallet.registerRpcMessageHandler(async (o,r)=>r.method)''\<rparr>"

definition snap_boom :: snap_data where
  "snap_boom = \<lparr>snapId = ''A'', sourceCode = ''throw new Error(\"boom\")''\<rparr>"

definition snap_empty :: snap_data where
  "snap_empty = \<lparr>snapId = [], sourceCode = ''wallet.registerRpcMessageHandler(async (o,r)=>r.method)''\<rparr>"

definition ok_reply :: "string \<Rightarrow> rpc_message" where
  "ok_reply i = \<lparr>m_id = IdStr i, m_result = Some (JStr ''OK''), m_error = None\<rparr>"

definition error_reply :: "string \<Rightarrow> string \<Rightarrow> rpc_message" where
  "error_reply i msg = \<lparr>m_id = IdStr i, m_result = None, m_error = Some (Error msg)\<rparr>"

definition out_of_band :: "string \<Rightarrow> rpc_message" where
  "out_of_band msg = \<lparr>m_id = IdNull, m_result = None, m_error = Some (Error msg)\<rparr>"

text \<open>The service after snap \<open>A\<close> was spawned: its ping is answered, its
  \<^verbatim>\<open>executeSnap\<close> command is on its way.\<close>

definition spawned_A :: service where
  "spawned_A =
     run example_service
       [ExecuteSnapCalled snap_A, IframeLoaded ''id-'', CommandData ''id-'' (ok_reply ''id-i'')]"

text \<open>The service after \<^verbatim>\<open>executeSnap\<close> of snap \<open>A\<close> has resolved.\<close>

definition running_A :: service where
  "running_A = step spawned_A (CommandData ''id-'' (ok_reply ''id-ii''))"

text \<open>The service after the ping of a spawn was answered with an error.\<close>

definition ping_failed_A :: service where
  "ping_failed_A =
     run example_service
       [ExecuteSnapCalled snap_A, IframeLoaded ''id-'',
        CommandData ''id-'' (error_reply ''id-i'' ''isolate is down'')]"

text \<open>The service in which the source of snap \<open>A\<close> throws during evaluation: the
  isolate's own controller answers the \<^verbatim>\<open>executeSnap\<close> command.\<close>

definition boom_executed :: "controller \<times> service" where
  "boom_executed =
     isolate_answers example_compartment \<lparr>snapRpcHandlers = Map.empty\<rparr>
       (run example_service
          [ExecuteSnapCalled snap_boom, IframeLoaded ''id-'', CommandData ''id-'' (ok_reply ''id-i'')])"

text \<open>The service after the isolate's own controller has answered the
  \<^verbatim>\<open>executeSnap\<close> command for snap \<open>A\<close>, with the controller as it is then;
  and the hook the service has installed for \<open>A\<close>.\<close>

definition executed_A :: "controller \<times> service" where
  "executed_A = isolate_answers example_compartment \<lparr>snapRpcHandlers = Map.empty\<rparr> spawned_A"

definition hook_A :: snap_rpc_hook where
  "hook_A = \<lparr>hook_snapId = ''A'', hook_jobId = ''id-''\<rparr>"

text \<open>The same for a snap \<open>A\<close> whose handler throws \<^verbatim>\<open>new Error("")\<close>.\<close>

definition snap_mute :: snap_data where
  "snap_mute =
     \<lparr>snapId = ''A'',
      sourceCode = ''wallet.registerRpcMessageHandler(async () => { throw new Error(\"\") })''\<rparr>"

definition executed_mute :: "controller \<times> service" where
  "executed_mute =
     isolate_answers example_compartment \<lparr>snapRpcHandlers = Map.empty\<rparr>
       (run example_service
          [ExecuteSnapCalled snap_mute, IframeLoaded ''id-'', CommandData ''id-'' (ok_reply ''id-i'')])"

text \<open>A second snap, a sequence of whole calls that obeys the contract (the poll
  timer of the first snap fires and its ping is answered before the second call), and the
  service after \<^verbatim>\<open>executeSnap\<close> was called with the empty string as snap id and the
  isolate's own controller has answered.\<close>

definition snap_B :: snap_data where
  "snap_B = \<lparr>snapId = ''B'', sourceCode = ''wallet.registerRpcMessageHandler(async (o,r)=>r.method)''\<rparr>"

definition example_calls :: "api list" where
  "example_calls =
     [Execute snap_A (ExecuteSucceeds (JStr ''OK'')),
      Between (TimerFired 2),
      Between (CommandData ''id-'' (ok_reply ''id-iii'')),
      Execute snap_B (ExecuteSucceeds (JStr ''OK'')),
      Terminate ''A'']"

definition empty_id_executed :: "controller \<times> service" where
  "empty_id_executed =
     isolate_answers example_compartment \<lparr>snapRpcHandlers = Map.empty\<rparr>
       (run example_service
          [ExecuteSnapCalled snap_empty, IframeLoaded ''id-'', CommandData ''id-'' (ok_reply ''id-i'')])"

text \<open>The streams of a job, in the order of \<^verbatim>\<open>Object.values(jobWrapper.streams)\<close>,
  and whether the stream at a reference is destroyed.\<close>

definition stream_refs :: "job_streams \<Rightarrow> nat list" where
  "stream_refs ss =
     command ss # (case rpc ss of None \<Rightarrow> [] | Some r \<Rightarrow> [r]) @ [connection ss]"

definition is_destroyed :: "service \<Rightarrow> nat \<Rightarrow> bool" where
  "is_destroyed st a = (case stream_store st a of None \<Rightarrow> False | Some s \<Rightarrow> destroyed s)"

text \<open>
  The turns in which \<^verbatim>\<open>terminate\<close> can remove a mapping: a call of
  \<^verbatim>\<open>terminateSnap\<close> or \<^verbatim>\<open>terminateAllSnaps\<close>, and an error response to an
  \<^verbatim>\<open>executeSnap\<close> command that is awaited (the \<^verbatim>\<open>catch\<close> of \<^verbatim>\<open>executeSnap\<close>).
\<close>

definition runs_terminate :: "service \<Rightarrow> event \<Rightarrow> bool" where
  "runs_terminate st ev =
     (case ev of
        TerminateSnapCalled sid \<Rightarrow> True
      | TerminateAllSnapsCalled \<Rightarrow> True
      | CommandData jobId data \<Rightarrow>
          (case inflight st (jobId, m_id data) of
             Some (ExecuteCommand d job) \<Rightarrow> m_error data \<noteq> None
           | _ \<Rightarrow> False)
      | _ \<Rightarrow> False)"

text \<open>Two calls of \<^verbatim>\<open>executeSnap\<close> for snap \<open>A\<close> that overlap: the second starts
  while the first is still in \<^verbatim>\<open>_init\<close>; both iframes load and both pings are
  answered.\<close>

definition raced_A :: service where
  "raced_A =
     run example_service
       [ExecuteSnapCalled snap_A, ExecuteSnapCalled snap_A,
        IframeLoaded ''id-'', IframeLoaded ''id-i'',
        CommandData ''id-'' (ok_reply ''id-ii''), CommandData ''id-i'' (ok_reply ''id-iii'')]"

text \<open>The same after both isolates have confirmed their \<^verbatim>\<open>executeSnap\<close> command.\<close>

definition raced_A_confirmed :: service where
  "raced_A_confirmed =
     run raced_A
       [CommandData ''id-'' (ok_reply ''id-iiii''), CommandData ''id-i'' (ok_reply ''id-iiiii'')]"



text \<open>The service after the iframe of the first job has loaded: the job is recorded
  and the ping of \<^verbatim>\<open>_init\<close> is on its way.\<close>

definition loaded_A :: service where
  "loaded_A = run example_service [ExecuteSnapCalled snap_A, IframeLoaded ''id-'']"

definition job_A :: env_metadata where
  "job_A = \<lparr>job_id = ''id-'', streams = \<lparr>command = 1, rpc = Some 2, connection = 0\<rparr>\<rparr>"

text \<open>The service with two running snaps: after \<open>A\<close>, snap \<open>B\<close> is executed in a
  job of its own.\<close>

definition running_AB :: service where
  "running_AB =
     run running_A
       [ExecuteSnapCalled snap_B, IframeLoaded ''id-iii'',
        CommandData ''id-iii'' (ok_reply ''id-iiii''),
        CommandData ''id-iii'' (ok_reply ''id-iiiii'')]"

section \<open>Unfolding the model\<close>

lemmas worker_defs =
  respond_def isTruthyString_def removeSnap_def registerRpcMessageHandler_def startSnap_def
  controller_executeSnap_def handleSnapRpc_def onCommandRequest_def

lemmas platform_defs =
  nanoid_def setTimeout_def clearTimeout_def publish_def settle_def truthy_get_def

lemmas service_defs =
  setJob_def deleteJob_def command_send_def serializeError_def command_result_def removeSnapHooks_def
  createSnapHooks_def mapSnapAndJob_def removeSnapAndJobMapping_def destroy_stream_def
  destroy_streams_def terminate_def terminateAllSnaps_def terminateSnap_def
  getRpcMessageHandler_def rpcHook_def pollForJobStatus_def poll_fired_def
  ping_timeout_fired_def status_response_def errorHandler_def createWindow_def
  executeSnap_def createWindow_timeout_def initStreams_def init_loaded_def iframe_loaded_def
  executeSnap_failed_def executeSnap_spawned_def init_ping_response_def
  executeSnap_response_def

lemmas loop_defs =
  resume_def run_listener_def emit_data_def falsy_id_def pump_destroys_def command_data_def
  timer_fired_def settle_unit_def
  step_def run_def answer_last_def isolate_answers_def

lemmas example_defs =
  example_ids_def example_service_def new_service_def default_to_def method_handler_def
  mute_handler_def example_compartment_def snap_A_def snap_B_def snap_boom_def snap_empty_def
  snap_mute_def ok_reply_def error_reply_def out_of_band_def

lemmas all_defs = worker_defs platform_defs service_defs loop_defs example_defs Let_def

section \<open>What destroying streams leaves alone\<close>

lemma destroy_stream_frame:
  "snapRpcHooks (destroy_stream r st) = snapRpcHooks st"
  "iframeUrl (destroy_stream r st) = iframeUrl st"
  "jobs (destroy_stream r st) = jobs st"
  "snapToJobMap (destroy_stream r st) = snapToJobMap st"
  "jobToSnapMap (destroy_stream r st) = jobToSnapMap st"
  "createWindowTimeout (destroy_stream r st) = createWindowTimeout st"
  "unresponsivePollingInterval (destroy_stream r st) = unresponsivePollingInterval st"
  "unresponsiveTimeout (destroy_stream r st) = unresponsiveTimeout st"
  "timeoutForUnresponsiveMap (destroy_stream r st) = timeoutForUnresponsiveMap st"
  "document_body (destroy_stream r st) = document_body st"
  "next_stream (destroy_stream r st) = next_stream st"
  "destroy_throws (destroy_stream r st) = destroy_throws st"
  "timers (destroy_stream r st) = timers st"
  "next_timer (destroy_stream r st) = next_timer st"
  "nanoid_source (destroy_stream r st) = nanoid_source st"
  "nanoid_next (destroy_stream r st) = nanoid_next st"
  "published (destroy_stream r st) = published st"
  "provider_setups (destroy_stream r st) = provider_setups st"
  "pending_windows (destroy_stream r st) = pending_windows st"
  "sent (destroy_stream r st) = sent st"
  "inflight (destroy_stream r st) = inflight st"
  "races (destroy_stream r st) = races st"
  "settled (destroy_stream r st) = settled st"
  by (simp_all add: destroy_stream_def split: option.splits)

lemma destroy_streams_frame:
  "snapRpcHooks (destroy_streams ss st) = snapRpcHooks st"
  "iframeUrl (destroy_streams ss st) = iframeUrl st"
  "jobs (destroy_streams ss st) = jobs st"
  "snapToJobMap (destroy_streams ss st) = snapToJobMap st"
  "jobToSnapMap (destroy_streams ss st) = jobToSnapMap st"
  "createWindowTimeout (destroy_streams ss st) = createWindowTimeout st"
  "unresponsivePollingInterval (destroy_streams ss st) = unresponsivePollingInterval st"
  "unresponsiveTimeout (destroy_streams ss st) = unresponsiveTimeout st"
  "timeoutForUnresponsiveMap (destroy_streams ss st) = timeoutForUnresponsiveMap st"
  "document_body (destroy_streams ss st) = document_body st"
  "next_stream (destroy_streams ss st) = next_stream st"
  "destroy_throws (destroy_streams ss st) = destroy_throws st"
  "timers (destroy_streams ss st) = timers st"
  "next_timer (destroy_streams ss st) = next_timer st"
  "nanoid_source (destroy_streams ss st) = nanoid_source st"
  "nanoid_next (destroy_streams ss st) = nanoid_next st"
  "published (destroy_streams ss st) = published st"
  "provider_setups (destroy_streams ss st) = provider_setups st"
  "pending_windows (destroy_streams ss st) = pending_windows st"
  "sent (destroy_streams ss st) = sent st"
  "inflight (destroy_streams ss st) = inflight st"
  "races (destroy_streams ss st) = races st"
  "settled (destroy_streams ss st) = settled st"
  by (simp_all add: destroy_streams_def destroy_stream_frame)

lemma pump_destroys_frame:
  "snapRpcHooks (pump_destroys a st) = snapRpcHooks st"
  "iframeUrl (pump_destroys a st) = iframeUrl st"
  "jobs (pump_destroys a st) = jobs st"
  "snapToJobMap (pump_destroys a st) = snapToJobMap st"
  "jobToSnapMap (pump_destroys a st) = jobToSnapMap st"
  "createWindowTimeout (pump_destroys a st) = createWindowTimeout st"
  "unresponsivePollingInterval (pump_destroys a st) = unresponsivePollingInterval st"
  "unresponsiveTimeout (pump_destroys a st) = unresponsiveTimeout st"
  "timeoutForUnresponsiveMap (pump_destroys a st) = timeoutForUnresponsiveMap st"
  "document_body (pump_destroys a st) = document_body st"
  "next_stream (pump_destroys a st) = next_stream st"
  "destroy_throws (pump_destroys a st) = destroy_throws st"
  "timers (pump_destroys a st) = timers st"
  "next_timer (pump_destroys a st) = next_timer st"
  "nanoid_source (pump_destroys a st) = nanoid_source st"
  "nanoid_next (pump_destroys a st) = nanoid_next st"
  "published (pump_destroys a st) = published st"
  "provider_setups (pump_destroys a st) = provider_setups st"
  "pending_windows (pump_destroys a st) = pending_windows st"
  "sent (pump_destroys a st) = sent st"
  "inflight (pump_destroys a st) = inflight st"
  "races (pump_destroys a st) = races st"
  "settled (pump_destroys a st) = settled st"
  by (simp_all add: pump_destroys_def split: option.splits)

section \<open>Messages that the error listener ignores\<close>

lemma errorHandler_ignores:
  "m_error data = None \<or> m_id data \<noteq> IdNull \<Longrightarrow> errorHandler jobId cs data st = st"
  by (auto simp add: errorHandler_def split: option.splits)

lemma listeners_ignore:
  "m_error data = None \<or> m_id data \<noteq> IdNull \<Longrightarrow> fold (run_listener cs data) ls st = st"
  by (induction ls) (simp_all add: run_listener_def errorHandler_ignores split: listener.splits)

lemma emit_data_ignores:
  "m_error data = None \<or> m_id data \<noteq> IdNull \<Longrightarrow> emit_data cs data st = st"
  by (simp add: emit_data_def listeners_ignore split: option.splits)

section \<open>Facts about the concrete service\<close>

lemma spawned_A_mapping: "snapToJobMap spawned_A ''A'' = Some ''id-''"
  by (simp add: spawned_A_def all_defs)

lemma running_A_mapping: "snapToJobMap running_A ''A'' = Some ''id-''"
  by (simp add: running_A_def spawned_A_def all_defs)

text \<open>A response whose id is not in flight (the ping of \<^verbatim>\<open>_init\<close> was answered
  before) closes the command substream of the job: an out-of-band error that follows
  it is not delivered.\<close>

lemma unknown_response_id_closes_substream:
  "is_destroyed (step running_A (CommandData ''id-'' (ok_reply ''id-i''))) 1 \<and>
   published
     (run running_A
        [CommandData ''id-'' (ok_reply ''id-i''), CommandData ''id-'' (out_of_band ''x'')]) = []"
  by (simp add: running_A_def spawned_A_def is_destroyed_def all_defs)

section \<open>A second \<^verbatim>\<open>executeSnap\<close> for a running snap\<close>

text \<open>
  C6. Calling the service's \<^verbatim>\<open>executeSnap\<close> with a snap id that is already in the
  snap-to-job mapping rejects with the error
  \<^verbatim>\<open>Snap "<id>" is already being executed.\<close> and returns the service exactly as
  it was: no job, mapping, hook or timer changes, and the running snap is not
  replaced. As an event of the loop, the call does nothing but settle the caller's
  promise with that rejection.
\<close>

theorem executeSnap_rejects_running_snap:
  "snapToJobMap st (snapId d) \<noteq> None \<Longrightarrow>
     executeSnap d st =
       (Inl (Error (''Snap \"'' @ snapId d @ ''\" is already being executed.'')), st) \<and>
     step st (ExecuteSnapCalled d) =
       settle (ExecuteSnapCall d)
         (Inl (Error (''Snap \"'' @ snapId d @ ''\" is already being executed.''))) st"
  by (simp add: executeSnap_def step_def)

theorem executeSnap_rejects_running_snap_witness:
  "snapToJobMap running_A (snapId snap_A) \<noteq> None \<and>
   executeSnap snap_A running_A =
     (Inl (Error ''Snap \"A\" is already being executed.''), running_A)"
  using executeSnap_rejects_running_snap [of running_A snap_A] running_A_mapping
  by (simp add: snap_A_def)

section \<open>A snap whose source throws\<close>

lemma startSnap_returns: "fst (startSnap cpt sid src c) = None"
  by (simp add: startSnap_def split: prod.splits option.splits)

text \<open>
  C1. The claim: when the evaluation of the snap's source throws, the isolate
  reports an \<^verbatim>\<open>executeSnap\<close> error response, the host's \<^verbatim>\<open>executeSnap\<close>
  rejects, and afterwards there is no mapping and no hook for the snap and the job is
  terminated. The code does otherwise. \<^verbatim>\<open>startSnap\<close> catches the throw, removes
  the snap's handler and logs, and returns normally, whatever the source and the
  controller: its result is never a thrown error, so the \<^verbatim>\<open>catch\<close> of
  \<^verbatim>\<open>Controller.executeSnap\<close> is never entered. For the source
  \<^verbatim>\<open>throw new Error("boom")\<close> the isolate answers \<^verbatim>\<open>{result: "OK"}\<close>; the host's
  \<^verbatim>\<open>executeSnap\<close> resolves with \<^verbatim>\<open>"OK"\<close>, and the mapping, the hook, the job and
  its iframe all stay. Only the last part of the claim holds: a handler that the
  source registered before it threw is removed.
\<close>

theorem evaluation_throw_is_answered_ok:
  "fst (startSnap cpt sid src c) = None \<and>
   fst (onCommandRequest example_compartment
          \<lparr>q_id = IdStr ''id-ii'',
           q_command = ExecuteSnap (Some (snapId snap_boom)) (Some (sourceCode snap_boom))\<rparr>
          \<lparr>snapRpcHandlers = Map.empty\<rparr>) = Some (ok_reply ''id-ii'') \<and>
   settled (snd boom_executed) = [(ExecuteSnapCall snap_boom, Inr (Some (JStr ''OK'')))] \<and>
   snapToJobMap (snd boom_executed) ''A'' = Some ''id-'' \<and>
   jobToSnapMap (snd boom_executed) ''id-'' = Some ''A'' \<and>
   snapRpcHooks (snd boom_executed) ''A'' = Some \<lparr>hook_snapId = ''A'', hook_jobId = ''id-''\<rparr> \<and>
   map fst (jobs (snd boom_executed)) = [''id-''] \<and>
   document_body (snd boom_executed) = [''id-''] \<and>
   snapRpcHandlers
     (snd (startSnap example_compartment ''A''
             ''wallet.registerRpcMessageHandler(f); throw new Error(\"boom\")''
             \<lparr>snapRpcHandlers = Map.empty\<rparr>)) ''A'' = None"
  by (simp add: startSnap_returns) (simp add: boom_executed_def all_defs)

section \<open>A spawn whose ping fails\<close>

text \<open>
  C4. The first half of the claim holds: \<^verbatim>\<open>_init\<close> returns the job only from the
  continuation of its ping (\<open>init_ping_response\<close> is the only way into
  \<open>executeSnap_spawned\<close>). The second half, that a failed handshake tears down the
  partially built isolate, does not hold for the ping. An error response to the ping
  of \<^verbatim>\<open>_init\<close> rejects \<^verbatim>\<open>executeSnap\<close> (with the message of the error as the engine
  serialized it) and changes nothing else, for every job and every state: the job
  record stays in \<^verbatim>\<open>jobs\<close>, its iframe stays in the document, its three streams
  stay open. In the concrete service the job that is
  left behind cannot even be terminated, since no snap is mapped to it. The sibling
  paths do clean up: the timeout of \<^verbatim>\<open>_createWindow\<close> removes the iframe, and the
  \<^verbatim>\<open>catch\<close> of \<^verbatim>\<open>executeSnap\<close> terminates the job.
\<close>

theorem failed_ping_leaves_job:
  "init_ping_response d job \<lparr>m_id = i, m_result = r, m_error = Some e\<rparr> st =
     settle (ExecuteSnapCall d) (Inl (Error (message (serializeError e)))) st \<and>
   settled ping_failed_A = [(ExecuteSnapCall snap_A, Inl (Error ''isolate is down''))] \<and>
   map fst (jobs ping_failed_A) = [''id-''] \<and>
   document_body ping_failed_A = [''id-''] \<and>
   map_option destroyed (stream_store ping_failed_A 0) = Some False \<and>
   map_option destroyed (stream_store ping_failed_A 1) = Some False \<and>
   map_option destroyed (stream_store ping_failed_A 2) = Some False \<and>
   fst (terminate ''id-'' ping_failed_A) =
     Inl (Error ''Failed to find a snap for job with id \"id-\"'')"
  by (simp add: ping_failed_A_def all_defs)

section \<open>Out-of-band errors\<close>

lemma running_A_stream:
  "stream_store running_A 1 = Some \<lparr>destroyed = False, listeners = [ErrorHandler ''id-'']\<rparr>"
  by (simp add: running_A_def spawned_A_def all_defs)

lemma running_A_job_snap: "jobToSnapMap running_A ''id-'' = Some ''A''"
  by (simp add: running_A_def spawned_A_def all_defs)

lemma running_A_published: "published running_A = []"
  by (simp add: running_A_def spawned_A_def all_defs)

text \<open>
  C9, the counterexample. The claim says that each message with an \<^verbatim>\<open>error\<close>
  and no id causes a publication of \<^verbatim>\<open>unhandledError\<close>. Two such messages arrive
  one after the other on the command substream of the job of the running snap \<open>A\<close>:
  only the first is published.
\<close>

theorem second_out_of_band_error_is_silent:
  "published (run running_A
      [CommandData ''id-'' (out_of_band ''x''), CommandData ''id-'' (out_of_band ''y'')]) =
     [UnhandledError ''A'' (Error ''x'')]"
  by (simp add: running_A_def spawned_A_def all_defs)

text \<open>
  C9, as amended. On a command substream that is open and carries the listener, the
  listener does nothing for a message that has no \<^verbatim>\<open>error\<close> or has an id. For a
  message that has an \<^verbatim>\<open>error\<close> and a null or undefined id, it publishes
  \<^verbatim>\<open>unhandledError\<close> with the job's snap id and the error exactly once if a snap
  with a non-empty id is mapped to the job, and nothing otherwise; in both cases it
  removes itself, so that no later message on that substream, out-of-band or not,
  reaches it.
\<close>

theorem out_of_band_error_listener:
  assumes "stream_store st cs = Some s" and "\<not> destroyed s"
    and "listeners s = [ErrorHandler jobId]"
  shows "(m_error data = None \<or> m_id data \<noteq> IdNull \<longrightarrow> emit_data cs data st = st) \<and>
         (m_error data = Some e \<and> m_id data = IdNull \<longrightarrow>
            published (emit_data cs data st) =
              published st @
              (case truthy_get (jobToSnapMap st) jobId of
                 Some sid \<Rightarrow> [UnhandledError sid e]
               | None \<Rightarrow> []) \<and>
            stream_store (emit_data cs data st) cs = Some (s\<lparr>listeners := []\<rparr>) \<and>
            (\<forall>data'. emit_data cs data' (emit_data cs data st) = emit_data cs data st))"
  using assms
  by (auto simp add: emit_data_ignores)
     (auto simp add: emit_data_def run_listener_def errorHandler_def publish_def
        split: option.splits)

theorem out_of_band_error_listener_witness:
  "published (emit_data 1 (out_of_band ''x'') running_A) = [UnhandledError ''A'' (Error ''x'')] \<and>
   emit_data 1 (out_of_band ''y'') (emit_data 1 (out_of_band ''x'') running_A) =
     emit_data 1 (out_of_band ''x'') running_A \<and>
   emit_data 1 (ok_reply ''id-ii'') running_A = running_A"
proof -
  have a: "\<not> destroyed \<lparr>destroyed = False, listeners = [ErrorHandler ''id-'']\<rparr>"
    by simp
  have b: "listeners \<lparr>destroyed = False, listeners = [ErrorHandler ''id-'']\<rparr> =
             [ErrorHandler ''id-'']"
    by simp
  show ?thesis
    using out_of_band_error_listener [OF running_A_stream a b, of "out_of_band ''x''" "Error ''x''"]
      out_of_band_error_listener [OF running_A_stream a b, of "ok_reply ''id-ii''" "Error ''x''"]
      running_A_job_snap running_A_published
    by (simp add: out_of_band_def ok_reply_def truthy_get_def)
qed

section \<open>What one whole call does to the service's maps\<close>

lemma clearTimeout_timers:
  "clearTimeout h st =
     st\<lparr>timers := (case h of None \<Rightarrow> timers st | Some t \<Rightarrow> (timers st)(t := None))\<rparr>"
  by (simp add: clearTimeout_def split: option.splits)

lemmas spawn_defs =
  executeSnap_call_def answer_last_def step_def executeSnap_def nanoid_def createWindow_def
  setTimeout_def iframe_loaded_def clearTimeout_timers init_loaded_def initStreams_def setJob_def
  command_send_def AList.update_conv command_data_def emit_data_ignores falsy_id_def resume_def
  init_ping_response_def command_result_def settle_def Let_def

lemma spawn_then_execute_succeeds:
  assumes "snapToJobMap st (snapId d) = None" and "snapId d \<noteq> []" and "fst (nanoid st) \<noteq> []"
    and "nanoid_source st (Suc (nanoid_next st)) \<noteq> []"
    and "nanoid_source st (Suc (Suc (nanoid_next st))) \<noteq> []"
    and "st' = executeSnap_call d (ExecuteSucceeds v) st"
  shows "jobs st' =
           AList.update (fst (nanoid st))
             \<lparr>job_id = fst (nanoid st),
              streams = \<lparr>command = Suc (next_stream st), rpc = Some (Suc (Suc (next_stream st))),
                         connection = next_stream st\<rparr>\<rparr> (jobs st) \<and>
         snapToJobMap st' = (snapToJobMap st)(snapId d \<mapsto> fst (nanoid st)) \<and>
         jobToSnapMap st' = (jobToSnapMap st)(fst (nanoid st) \<mapsto> snapId d) \<and>
         snapRpcHooks st' =
           (snapRpcHooks st)(snapId d \<mapsto> \<lparr>hook_snapId = snapId d, hook_jobId = fst (nanoid st)\<rparr>) \<and>
         timeoutForUnresponsiveMap st' =
           (timeoutForUnresponsiveMap st)(snapId d \<mapsto> Suc (next_timer st))"
  using assms
  by (simp add: spawn_defs executeSnap_spawned_def mapSnapAndJob_def
      executeSnap_response_def pollForJobStatus_def truthy_get_def createSnapHooks_def)

lemma spawn_then_execute_fails:
  assumes "snapToJobMap st (snapId d) = None" and "snapId d \<noteq> []"
    and "jobToSnapMap st (fst (nanoid st)) = None"
    and "nanoid_source st (Suc (nanoid_next st)) \<noteq> []"
    and "nanoid_source st (Suc (Suc (nanoid_next st))) \<noteq> []"
    and "st' = executeSnap_call d (ExecuteFails e) st"
  shows "jobs st' = AList.delete (fst (nanoid st)) (jobs st) \<and>
         snapToJobMap st' = snapToJobMap st \<and>
         jobToSnapMap st' = jobToSnapMap st \<and>
         snapRpcHooks st' = (snapRpcHooks st)(snapId d := None) \<and>
         timeoutForUnresponsiveMap st' = (timeoutForUnresponsiveMap st)(snapId d := None)"
  using assms
  by (simp add: spawn_defs executeSnap_spawned_def mapSnapAndJob_def
      executeSnap_response_def executeSnap_failed_def terminate_def truthy_get_def
      destroy_streams_frame removeSnapAndJobMapping_def removeSnapHooks_def deleteJob_def
      AList.delete_update_same fun_upd_idem_iff)

lemma spawn_ping_fails:
  assumes "snapToJobMap st (snapId d) = None"
    and "nanoid_source st (Suc (nanoid_next st)) \<noteq> []"
    and "st' = executeSnap_call d (PingFails e) st"
  shows "jobs st' =
           AList.update (fst (nanoid st))
             \<lparr>job_id = fst (nanoid st),
              streams = \<lparr>command = Suc (next_stream st), rpc = Some (Suc (Suc (next_stream st))),
                         connection = next_stream st\<rparr>\<rparr> (jobs st) \<and>
         snapToJobMap st' = snapToJobMap st \<and>
         jobToSnapMap st' = jobToSnapMap st \<and>
         snapRpcHooks st' = snapRpcHooks st \<and>
         timeoutForUnresponsiveMap st' = timeoutForUnresponsiveMap st"
  using assms
  by (simp add: spawn_defs)

lemma spawn_window_times_out:
  assumes "snapToJobMap st (snapId d) = None"
    and "st' = executeSnap_call d WindowTimesOut st"
  shows "jobs st' = jobs st \<and>
         snapToJobMap st' = snapToJobMap st \<and>
         jobToSnapMap st' = jobToSnapMap st \<and>
         snapRpcHooks st' = snapRpcHooks st \<and>
         timeoutForUnresponsiveMap st' = timeoutForUnresponsiveMap st"
  using assms
  by (simp add: executeSnap_call_def step_def executeSnap_def nanoid_def
      createWindow_def setTimeout_def timer_fired_def createWindow_timeout_def settle_def Let_def)

lemma terminate_known:
  assumes "map_of (jobs st) jobId = Some job" and "jobToSnapMap st jobId = Some sid"
    and "sid \<noteq> []"
  shows "terminate jobId st =
           (Inr (),
            (destroy_streams (streams job) st)
              \<lparr>document_body := remove1 (job_id job) (document_body st),
               timers := (case timeoutForUnresponsiveMap st sid of
                            None \<Rightarrow> timers st
                          | Some t \<Rightarrow> (timers st)(t := None)),
               timeoutForUnresponsiveMap := (timeoutForUnresponsiveMap st)(sid := None),
               jobToSnapMap := (jobToSnapMap st)(jobId := None),
               snapToJobMap := (snapToJobMap st)(sid := None),
               snapRpcHooks := (snapRpcHooks st)(sid := None),
               jobs := AList.delete jobId (jobs st)\<rparr>)"
  using assms
  by (simp add: terminate_def truthy_get_def destroy_streams_frame clearTimeout_def
      removeSnapAndJobMapping_def removeSnapHooks_def deleteJob_def Let_def
      split: option.splits)

lemma terminateSnap_call:
  assumes "snapToJobMap st sid = Some jobId" and "jobId \<noteq> []" and "sid \<noteq> []"
    and "jobToSnapMap st jobId = Some sid" and "map_of (jobs st) jobId = Some job"
    and "st' = step st (TerminateSnapCalled sid)"
  shows "jobs st' = AList.delete jobId (jobs st) \<and>
         snapToJobMap st' = (snapToJobMap st)(sid := None) \<and>
         jobToSnapMap st' = (jobToSnapMap st)(jobId := None) \<and>
         snapRpcHooks st' = (snapRpcHooks st)(sid := None) \<and>
         timeoutForUnresponsiveMap st' = (timeoutForUnresponsiveMap st)(sid := None)"
  using assms
  by (simp add: step_def settle_unit_def terminateSnap_def truthy_get_def terminate_known
      destroy_streams_frame settle_def)

section \<open>The invariant of the maps\<close>

lemma consistentD:
  assumes "consistent st"
  shows "distinct (map fst (jobs st))"
    and "snapToJobMap st sid = Some jobId \<longleftrightarrow> jobToSnapMap st jobId = Some sid"
    and "snapToJobMap st sid = Some jobId \<Longrightarrow> sid \<noteq> [] \<and> jobId \<noteq> [] \<and> map_of (jobs st) jobId \<noteq> None"
    and "snapRpcHooks st sid \<noteq> None \<longleftrightarrow> snapToJobMap st sid \<noteq> None"
    and "timeoutForUnresponsiveMap st sid \<noteq> None \<Longrightarrow> snapToJobMap st sid \<noteq> None"
  using assms unfolding consistent_def by blast+

lemma consistentI:
  assumes "distinct (map fst (jobs st))"
    and "\<And>sid jobId. snapToJobMap st sid = Some jobId \<longleftrightarrow> jobToSnapMap st jobId = Some sid"
    and "\<And>sid jobId. snapToJobMap st sid = Some jobId \<Longrightarrow>
           sid \<noteq> [] \<and> jobId \<noteq> [] \<and> map_of (jobs st) jobId \<noteq> None"
    and "\<And>sid. snapRpcHooks st sid \<noteq> None \<longleftrightarrow> snapToJobMap st sid \<noteq> None"
    and "\<And>sid. timeoutForUnresponsiveMap st sid \<noteq> None \<Longrightarrow> snapToJobMap st sid \<noteq> None"
  shows "consistent st"
  using assms unfolding consistent_def by blast

lemma consistent_same:
  assumes "consistent st" and "jobs st' = jobs st" and "snapToJobMap st' = snapToJobMap st"
    and "jobToSnapMap st' = jobToSnapMap st" and "snapRpcHooks st' = snapRpcHooks st"
    and "timeoutForUnresponsiveMap st' = timeoutForUnresponsiveMap st"
  shows "consistent st'"
proof -
  have "consistent st' = consistent st"
    unfolding consistent_def by (simp only: assms(2-6))
  with assms(1) show ?thesis by simp
qed

lemma consistent_new_job:
  assumes "consistent st" and "jobs st' = AList.update jobId job (jobs st)"
    and "snapToJobMap st' = snapToJobMap st"
    and "jobToSnapMap st' = jobToSnapMap st" and "snapRpcHooks st' = snapRpcHooks st"
    and "timeoutForUnresponsiveMap st' = timeoutForUnresponsiveMap st"
  shows "consistent st'"
proof (rule consistentI)
  show "distinct (map fst (jobs st'))"
    using consistentD(1) [OF assms(1)] assms(2) by (simp add: AList.distinct_update)
  show "snapToJobMap st' sid = Some j \<longleftrightarrow> jobToSnapMap st' j = Some sid" for sid j
    using consistentD(2) [OF assms(1)] assms(3,4) by simp
  show "sid \<noteq> [] \<and> j \<noteq> [] \<and> map_of (jobs st') j \<noteq> None"
    if "snapToJobMap st' sid = Some j" for sid j
    using consistentD(3) [OF assms(1), of sid j] that assms(2,3) by (simp add: AList.update_conv)
  show "snapRpcHooks st' sid \<noteq> None \<longleftrightarrow> snapToJobMap st' sid \<noteq> None" for sid
    using consistentD(4) [OF assms(1)] assms(3,5) by simp
  show "snapToJobMap st' sid \<noteq> None" if "timeoutForUnresponsiveMap st' sid \<noteq> None" for sid
    using consistentD(5) [OF assms(1), of sid] that assms(3,6) by simp
qed

lemma consistent_new_snap:
  assumes "consistent st" and "jobs st' = AList.update jobId job (jobs st)"
    and "snapToJobMap st' = (snapToJobMap st)(sid \<mapsto> jobId)"
    and "jobToSnapMap st' = (jobToSnapMap st)(jobId \<mapsto> sid)"
    and "snapRpcHooks st' = (snapRpcHooks st)(sid \<mapsto> hook)"
    and "timeoutForUnresponsiveMap st' = (timeoutForUnresponsiveMap st)(sid \<mapsto> h)"
    and "snapToJobMap st sid = None" and "jobToSnapMap st jobId = None"
    and "sid \<noteq> []" and "jobId \<noteq> []"
  shows "consistent st'"
proof (rule consistentI)
  show "distinct (map fst (jobs st'))"
    using consistentD(1) [OF assms(1)] assms(2) by (simp add: AList.distinct_update)
  show "snapToJobMap st' s = Some j \<longleftrightarrow> jobToSnapMap st' j = Some s" for s j
    using consistentD(2) [OF assms(1), of s j] consistentD(2) [OF assms(1), of sid j]
      consistentD(2) [OF assms(1), of s jobId] assms(3,4,7,8)
    by auto
  show "s \<noteq> [] \<and> j \<noteq> [] \<and> map_of (jobs st') j \<noteq> None"
    if "snapToJobMap st' s = Some j" for s j
    using consistentD(3) [OF assms(1), of s j] that assms(2,3,9,10)
    by (auto simp add: AList.update_conv split: if_splits)
  show "snapRpcHooks st' s \<noteq> None \<longleftrightarrow> snapToJobMap st' s \<noteq> None" for s
    using consistentD(4) [OF assms(1), of s] assms(3,5) by simp
  show "snapToJobMap st' s \<noteq> None" if "timeoutForUnresponsiveMap st' s \<noteq> None" for s
    using consistentD(5) [OF assms(1), of s] that assms(3,6) by (simp split: if_splits)
qed

lemma consistent_removed:
  assumes "consistent st" and "jobs st' = AList.delete jobId (jobs st)"
    and "snapToJobMap st' = (snapToJobMap st)(sid := None)"
    and "jobToSnapMap st' = (jobToSnapMap st)(jobId := None)"
    and "snapRpcHooks st' = (snapRpcHooks st)(sid := None)"
    and "timeoutForUnresponsiveMap st' = (timeoutForUnresponsiveMap st)(sid := None)"
    and "jobToSnapMap st jobId = Some sid"
  shows "consistent st'"
proof (rule consistentI)
  show "distinct (map fst (jobs st'))"
    using consistentD(1) [OF assms(1)] assms(2) by (simp add: AList.distinct_delete)
  show "snapToJobMap st' s = Some j \<longleftrightarrow> jobToSnapMap st' j = Some s" for s j
    using consistentD(2) [OF assms(1), of s j] consistentD(2) [OF assms(1), of sid j]
      consistentD(2) [OF assms(1), of s jobId] assms(3,4,7)
    by auto
  show "s \<noteq> [] \<and> j \<noteq> [] \<and> map_of (jobs st') j \<noteq> None"
    if "snapToJobMap st' s = Some j" for s j
    using consistentD(3) [OF assms(1), of s j] consistentD(2) [OF assms(1), of s j]
      that assms(2,3,7)
    by (auto simp add: AList.delete_conv split: if_splits)
  show "snapRpcHooks st' s \<noteq> None \<longleftrightarrow> snapToJobMap st' s \<noteq> None" for s
    using consistentD(4) [OF assms(1), of s] assms(3,5) by simp
  show "snapToJobMap st' s \<noteq> None" if "timeoutForUnresponsiveMap st' s \<noteq> None" for s
    using consistentD(5) [OF assms(1), of s] that assms(3,6) by (simp split: if_splits)
qed

lemma consistent_untouched:
  assumes "consistent st" and "jobs st' = AList.delete jobId (jobs st)"
    and "snapToJobMap st' = snapToJobMap st"
    and "jobToSnapMap st' = jobToSnapMap st"
    and "snapRpcHooks st' = (snapRpcHooks st)(sid := None)"
    and "timeoutForUnresponsiveMap st' = (timeoutForUnresponsiveMap st)(sid := None)"
    and "snapToJobMap st sid = None" and "jobToSnapMap st jobId = None"
  shows "consistent st'"
proof (rule consistentI)
  show "distinct (map fst (jobs st'))"
    using consistentD(1) [OF assms(1)] assms(2) by (simp add: AList.distinct_delete)
  show "snapToJobMap st' s = Some j \<longleftrightarrow> jobToSnapMap st' j = Some s" for s j
    using consistentD(2) [OF assms(1), of s j] assms(3,4) by simp
  show "s \<noteq> [] \<and> j \<noteq> [] \<and> map_of (jobs st') j \<noteq> None"
    if "snapToJobMap st' s = Some j" for s j
    using consistentD(3) [OF assms(1), of s j] consistentD(2) [OF assms(1), of s j]
      that assms(2,3,8)
    by (auto simp add: AList.delete_conv split: if_splits)
  show "snapRpcHooks st' s \<noteq> None \<longleftrightarrow> snapToJobMap st' s \<noteq> None" for s
    using consistentD(4) [OF assms(1), of s] assms(3,5,7) by auto
  show "snapToJobMap st' s \<noteq> None" if "timeoutForUnresponsiveMap st' s \<noteq> None" for s
    using consistentD(5) [OF assms(1), of s] that assms(3,6) by (simp split: if_splits)
qed

lemma execute_keeps_consistent:
  assumes "consistent st" and "snapToJobMap st (snapId d) = None" and "snapId d \<noteq> []"
    and "fst (nanoid st) \<noteq> []" and "jobToSnapMap st (fst (nanoid st)) = None"
    and "nanoid_source st (Suc (nanoid_next st)) \<noteq> []"
    and "nanoid_source st (Suc (Suc (nanoid_next st))) \<noteq> []"
  shows "consistent (executeSnap_call d b st)"
proof (cases b)
  case WindowTimesOut
  with spawn_window_times_out [OF assms(2), of "executeSnap_call d b st"]
  show ?thesis by (intro consistent_same [OF assms(1)]) simp_all
next
  case (PingFails e)
  with spawn_ping_fails [OF assms(2) assms(6), of "executeSnap_call d b st" e]
  show ?thesis by (intro consistent_new_job [OF assms(1)]) simp_all
next
  case (ExecuteFails e)
  with spawn_then_execute_fails [OF assms(2) assms(3) assms(5) assms(6) assms(7),
      of "executeSnap_call d b st" e]
  show ?thesis
    by (intro consistent_untouched [OF assms(1), of _ "fst (nanoid st)" "snapId d"])
       (simp_all add: assms)
next
  case (ExecuteSucceeds v)
  with spawn_then_execute_succeeds [OF assms(2) assms(3) assms(4) assms(6) assms(7),
      of "executeSnap_call d b st" v]
  show ?thesis
    by (intro consistent_new_snap [OF assms(1), of _ "fst (nanoid st)" _ "snapId d"])
       (simp_all add: assms)
qed

lemma terminate_keeps_consistent:
  assumes "consistent st" and "snapToJobMap st sid \<noteq> None"
  shows "consistent (step st (TerminateSnapCalled sid))"
proof -
  from assms obtain jobId where j: "snapToJobMap st sid = Some jobId" by auto
  from consistentD(3) [OF assms(1) j] consistentD(2) [OF assms(1), of sid jobId] j
  have a: "jobId \<noteq> []" "sid \<noteq> []" "jobToSnapMap st jobId = Some sid"
    and "map_of (jobs st) jobId \<noteq> None"
    by simp_all
  then obtain job where b: "map_of (jobs st) jobId = Some job" by auto
  from terminateSnap_call [OF j a b, of "step st (TerminateSnapCalled sid)"]
  show ?thesis
    by (intro consistent_removed [OF assms(1), of _ jobId sid]) (simp_all add: a)
qed

lemma errorHandler_frame:
  "snapRpcHooks (errorHandler jobId cs data st) = snapRpcHooks st"
  "jobs (errorHandler jobId cs data st) = jobs st"
  "snapToJobMap (errorHandler jobId cs data st) = snapToJobMap st"
  "jobToSnapMap (errorHandler jobId cs data st) = jobToSnapMap st"
  "inflight (errorHandler jobId cs data st) = inflight st"
  by (simp_all add: errorHandler_def publish_def Let_def split: option.splits)

lemma listeners_frame:
  "snapRpcHooks (fold (run_listener cs data) ls st) = snapRpcHooks st \<and>
   jobs (fold (run_listener cs data) ls st) = jobs st \<and>
   snapToJobMap (fold (run_listener cs data) ls st) = snapToJobMap st \<and>
   jobToSnapMap (fold (run_listener cs data) ls st) = jobToSnapMap st \<and>
   inflight (fold (run_listener cs data) ls st) = inflight st"
  by (induction ls arbitrary: st)
     (simp_all add: run_listener_def errorHandler_frame split: listener.splits)

lemma emit_data_frame:
  "snapRpcHooks (emit_data cs data st) = snapRpcHooks st"
  "jobs (emit_data cs data st) = jobs st"
  "snapToJobMap (emit_data cs data st) = snapToJobMap st"
  "jobToSnapMap (emit_data cs data st) = jobToSnapMap st"
  "inflight (emit_data cs data st) = inflight st"
  by (simp_all add: emit_data_def listeners_frame split: option.splits)

lemma consistent_timer_stored:
  assumes "consistent st" and "jobs st' = jobs st" and "snapToJobMap st' = snapToJobMap st"
    and "jobToSnapMap st' = jobToSnapMap st" and "snapRpcHooks st' = snapRpcHooks st"
    and "dom (timeoutForUnresponsiveMap st') \<subseteq>
           dom (timeoutForUnresponsiveMap st) \<union> dom (snapToJobMap st)"
  shows "consistent st'"
proof (rule consistentI)
  show "distinct (map fst (jobs st'))"
    using consistentD(1) [OF assms(1)] assms(2) by simp
  show "snapToJobMap st' sid = Some j \<longleftrightarrow> jobToSnapMap st' j = Some sid" for sid j
    using consistentD(2) [OF assms(1)] assms(3,4) by simp
  show "sid \<noteq> [] \<and> j \<noteq> [] \<and> map_of (jobs st') j \<noteq> None"
    if "snapToJobMap st' sid = Some j" for sid j
    using consistentD(3) [OF assms(1), of sid j] that assms(2,3) by simp
  show "snapRpcHooks st' sid \<noteq> None \<longleftrightarrow> snapToJobMap st' sid \<noteq> None" for sid
    using consistentD(4) [OF assms(1)] assms(3,5) by simp
  show "snapToJobMap st' sid \<noteq> None" if "timeoutForUnresponsiveMap st' sid \<noteq> None" for sid
  proof -
    from that have "sid \<in> dom (timeoutForUnresponsiveMap st')" by (simp add: domIff)
    with assms(6) have "sid \<in> dom (timeoutForUnresponsiveMap st) \<or> sid \<in> dom (snapToJobMap st)"
      by blast
    then have "snapToJobMap st sid \<noteq> None"
      using consistentD(5) [OF assms(1), of sid] by (auto simp add: domIff)
    with assms(3) show ?thesis by simp
  qed
qed

lemma errorHandler_timers_frame:
  "timeoutForUnresponsiveMap (errorHandler jobId cs data st) = timeoutForUnresponsiveMap st"
  by (simp add: errorHandler_def publish_def Let_def split: option.splits)

lemma listeners_timers_frame:
  "timeoutForUnresponsiveMap (fold (run_listener cs data) ls st) = timeoutForUnresponsiveMap st"
  by (induction ls arbitrary: st)
     (simp_all add: run_listener_def errorHandler_timers_frame split: listener.splits)

lemma emit_data_timers_frame:
  "timeoutForUnresponsiveMap (emit_data cs data st) = timeoutForUnresponsiveMap st"
  by (simp add: emit_data_def listeners_timers_frame split: option.splits)

lemma resume_between_calls:
  assumes "\<not> (\<exists>d job. k = InitPing d job)" and "\<not> (\<exists>d job. k = ExecuteCommand d job)"
  shows "jobs (resume k data st) = jobs st \<and>
         snapToJobMap (resume k data st) = snapToJobMap st \<and>
         jobToSnapMap (resume k data st) = jobToSnapMap st \<and>
         snapRpcHooks (resume k data st) = snapRpcHooks st \<and>
         dom (timeoutForUnresponsiveMap (resume k data st)) \<subseteq>
           dom (timeoutForUnresponsiveMap st) \<union> dom (snapToJobMap st)"
proof (cases k)
  case (InitPing d job)
  with assms show ?thesis by simp
next
  case (ExecuteCommand d job)
  with assms show ?thesis by simp
next
  case (StatusPing t s)
  then show ?thesis
    by (auto simp add: resume_def status_response_def command_result_def publish_def
        clearTimeout_timers pollForJobStatus_def truthy_get_def setTimeout_def Let_def
        split: option.splits if_splits)
next
  case (HookCommand c)
  then show ?thesis by (auto simp add: resume_def settle_def)
qed

lemma command_data_between_calls:
  assumes "between_calls st (CommandData jobId data)"
  shows "jobs (command_data jobId data st) = jobs st \<and>
         snapToJobMap (command_data jobId data st) = snapToJobMap st \<and>
         jobToSnapMap (command_data jobId data st) = jobToSnapMap st \<and>
         snapRpcHooks (command_data jobId data st) = snapRpcHooks st \<and>
         dom (timeoutForUnresponsiveMap (command_data jobId data st)) \<subseteq>
           dom (timeoutForUnresponsiveMap st) \<union> dom (snapToJobMap st)"
proof (cases "inflight st (jobId, m_id data)")
  case None
  then show ?thesis
    by (auto simp add: command_data_def emit_data_frame emit_data_timers_frame
        pump_destroys_frame Let_def split: option.splits)
next
  case (Some k)
  with assms
  have k: "\<not> (\<exists>d job. k = InitPing d job)" "\<not> (\<exists>d job. k = ExecuteCommand d job)"
    by (auto simp add: between_calls_def)
  have r: "jobs (resume k data st1) = jobs st \<and>
         snapToJobMap (resume k data st1) = snapToJobMap st \<and>
         jobToSnapMap (resume k data st1) = jobToSnapMap st \<and>
         snapRpcHooks (resume k data st1) = snapRpcHooks st \<and>
         dom (timeoutForUnresponsiveMap (resume k data st1)) \<subseteq>
           dom (timeoutForUnresponsiveMap st) \<union> dom (snapToJobMap st)"
    if "st1 = (emit_data cs data st)\<lparr>inflight := f\<rparr>" for st1 cs f
    using resume_between_calls [OF k, of data st1]
    by (simp add: that emit_data_frame emit_data_timers_frame)
  show ?thesis
  proof (cases "map_of (jobs st) jobId")
    case None
    then show ?thesis by (simp add: command_data_def)
  next
    case job: (Some job)
    show ?thesis
    proof (cases "stream_store st (command (streams job))")
      case None
      with job show ?thesis by (simp add: command_data_def)
    next
      case s: (Some s)
      show ?thesis
      proof (cases "destroyed s")
        case True
        with job s show ?thesis by (simp add: command_data_def)
      next
        case False
        show ?thesis
        proof (cases "falsy_id (m_id data)")
          case True
          with job s False show ?thesis
            by (simp add: command_data_def emit_data_frame emit_data_timers_frame Let_def)
        next
          case truthy: False
          with job s Some False
          have "command_data jobId data st =
                  resume k data
                    ((emit_data (command (streams job)) data st)
                       \<lparr>inflight := (inflight st)((jobId, m_id data) := None)\<rparr>)"
            by (simp add: command_data_def emit_data_frame Let_def)
          with r [OF refl] show ?thesis by simp
        qed
      qed
    qed
  qed
qed

lemma step_between_calls:
  assumes "between_calls st ev"
  shows "jobs (step st ev) = jobs st \<and>
         snapToJobMap (step st ev) = snapToJobMap st \<and>
         jobToSnapMap (step st ev) = jobToSnapMap st \<and>
         snapRpcHooks (step st ev) = snapRpcHooks st \<and>
         dom (timeoutForUnresponsiveMap (step st ev)) \<subseteq>
           dom (timeoutForUnresponsiveMap st) \<union> dom (snapToJobMap st)"
proof (cases ev)
  case (ExecuteSnapCalled d)
  with assms show ?thesis by (simp add: between_calls_def)
next
  case (TerminateSnapCalled s)
  with assms show ?thesis by (simp add: between_calls_def)
next
  case TerminateAllSnapsCalled
  with assms show ?thesis by (simp add: between_calls_def)
next
  case (RpcHookCalled hook origin request)
  then show ?thesis
    by (auto simp add: step_def rpcHook_def nanoid_def command_send_def settle_def
        split: option.splits)
next
  case (IframeLoaded jobId)
  with assms show ?thesis by (simp add: between_calls_def)
next
  case (TimerFired t)
  then show ?thesis
    by (auto simp add: step_def timer_fired_def createWindow_timeout_def poll_fired_def
        setTimeout_def nanoid_def command_send_def publish_def ping_timeout_fired_def settle_def
        Let_def split: option.splits prod.splits timer_callback.splits)
next
  case (CommandData jobId data)
  with assms command_data_between_calls [of st jobId data] show ?thesis
    by (simp add: step_def)
qed

lemma between_keeps_consistent:
  assumes "consistent st" and "between_calls st ev"
  shows "consistent (step st ev)"
proof -
  note s = step_between_calls [OF assms(2)]
  from assms(1) show ?thesis
    by (rule consistent_timer_stored) (simp_all add: s)
qed

lemma call_keeps_consistent:
  "consistent st \<Longrightarrow> obeys st (c # cs) \<Longrightarrow> consistent (call c st)"
  by (cases c)
     (simp_all add: execute_keeps_consistent terminate_keeps_consistent between_keeps_consistent)

lemma run_calls_consistent:
  "consistent st \<Longrightarrow> obeys st cs \<Longrightarrow> consistent (run_calls st cs)"
proof (induction cs arbitrary: st)
  case Nil
  then show ?case by simp
next
  case (Cons c cs)
  from Cons.prems have "consistent (call c st)" by (rule call_keeps_consistent)
  moreover from Cons.prems have "obeys (call c st) cs" by (cases c) simp_all
  ultimately show ?case using Cons.IH by simp
qed

lemma new_service_consistent: "consistent (new_service args ids throwing)"
  by (simp add: consistent_def new_service_def)

lemma consistent_bijective:
  assumes "consistent st"
  shows "(\<forall>sid. snapRpcHooks st sid \<noteq> None \<longleftrightarrow> snapToJobMap st sid \<noteq> None) \<and>
         (\<forall>sid jobId. snapToJobMap st sid = Some jobId \<longleftrightarrow> jobToSnapMap st jobId = Some sid) \<and>
         inj_on (snapToJobMap st) (dom (snapToJobMap st)) \<and>
         inj_on (jobToSnapMap st) (dom (jobToSnapMap st)) \<and>
         card (dom (snapRpcHooks st)) = card (dom (snapToJobMap st)) \<and>
         card (dom (jobToSnapMap st)) = card (dom (snapToJobMap st))"
proof -
  note inv = consistentD(2) [OF assms]
  note hooks = consistentD(4) [OF assms]
  have i1: "inj_on (snapToJobMap st) (dom (snapToJobMap st))"
  proof (rule inj_onI)
    fix x y assume "x \<in> dom (snapToJobMap st)" "y \<in> dom (snapToJobMap st)"
      and e: "snapToJobMap st x = snapToJobMap st y"
    then obtain j where "snapToJobMap st x = Some j" "snapToJobMap st y = Some j" by auto
    then have "jobToSnapMap st j = Some x" "jobToSnapMap st j = Some y" using inv by auto
    then show "x = y" by simp
  qed
  have i2: "inj_on (jobToSnapMap st) (dom (jobToSnapMap st))"
  proof (rule inj_onI)
    fix x y assume "x \<in> dom (jobToSnapMap st)" "y \<in> dom (jobToSnapMap st)"
      and e: "jobToSnapMap st x = jobToSnapMap st y"
    then obtain s where "jobToSnapMap st x = Some s" "jobToSnapMap st y = Some s" by auto
    then have "snapToJobMap st s = Some x" "snapToJobMap st s = Some y" using inv by auto
    then show "x = y" by simp
  qed
  have d: "dom (snapRpcHooks st) = dom (snapToJobMap st)"
    using hooks by (auto simp add: dom_def)
  have "bij_betw (\<lambda>s. the (snapToJobMap st s)) (dom (snapToJobMap st)) (dom (jobToSnapMap st))"
    unfolding bij_betw_def
  proof
    show "inj_on (\<lambda>s. the (snapToJobMap st s)) (dom (snapToJobMap st))"
    proof (rule inj_onI)
      fix x y assume "x \<in> dom (snapToJobMap st)" "y \<in> dom (snapToJobMap st)"
        and "the (snapToJobMap st x) = the (snapToJobMap st y)"
      then have "snapToJobMap st x = snapToJobMap st y" by auto
      with i1 \<open>x \<in> dom (snapToJobMap st)\<close> \<open>y \<in> dom (snapToJobMap st)\<close>
      show "x = y" by (simp add: inj_on_def)
    qed
    show "(\<lambda>s. the (snapToJobMap st s)) ` dom (snapToJobMap st) = dom (jobToSnapMap st)"
    proof
      show "(\<lambda>s. the (snapToJobMap st s)) ` dom (snapToJobMap st) \<subseteq> dom (jobToSnapMap st)"
      proof
        fix j assume "j \<in> (\<lambda>s. the (snapToJobMap st s)) ` dom (snapToJobMap st)"
        then obtain s j' where "snapToJobMap st s = Some j'" and "j = the (snapToJobMap st s)"
          by auto
        then have "snapToJobMap st s = Some j" by simp
        then have "jobToSnapMap st j = Some s" by (rule iffD1 [OF inv])
        then show "j \<in> dom (jobToSnapMap st)" by (rule domI)
      qed
      show "dom (jobToSnapMap st) \<subseteq> (\<lambda>s. the (snapToJobMap st s)) ` dom (snapToJobMap st)"
      proof
        fix j assume "j \<in> dom (jobToSnapMap st)"
        then obtain s where "jobToSnapMap st j = Some s" by auto
        then have e: "snapToJobMap st s = Some j" by (rule iffD2 [OF inv])
        then have "s \<in> dom (snapToJobMap st)" by (rule domI)
        moreover from e have "j = the (snapToJobMap st s)" by simp
        ultimately show "j \<in> (\<lambda>s. the (snapToJobMap st s)) ` dom (snapToJobMap st)"
          by (rule rev_image_eqI)
      qed
    qed
  qed
  then have c: "card (dom (snapToJobMap st)) = card (dom (jobToSnapMap st))"
    by (rule bij_betw_same_card)
  from inv hooks i1 i2 d c show ?thesis by simp
qed

section \<open>Calls that run one after the other\<close>

lemma example_calls_obey: "obeys example_service example_calls"
  by (simp add: example_calls_def executeSnap_call_def between_calls_def all_defs)

lemma example_calls_result:
  "snapToJobMap (run_calls example_service example_calls) ''B'' = Some ''id-iiii'' \<and>
   snapToJobMap (run_calls example_service example_calls) ''A'' = None"
  by (simp add: example_calls_def executeSnap_call_def all_defs)

text \<open>
  Whole calls that run one after the other keep the maps consistent when no snap id
  is the empty string. Take a new service and a sequence of \<^verbatim>\<open>executeSnap\<close> and
  \<^verbatim>\<open>terminateSnap\<close> calls, each run to its end before the next starts (whatever
  the platform and the isolate do about an \<^verbatim>\<open>executeSnap\<close>: the iframe times out,
  the ping fails, the command fails or succeeds), with any turns of the event loop
  between them: timers that fire, hooks that are called, responses to pings of the
  liveness loop and to hooks' commands, and let the sequence obey the contract of
  \<open>obeys\<close>. Then in the state reached, a hook exists for a snap id if and only if the
  id is in the mapping; the two directions of the mapping are inverse to each other,
  so each is injective; and the numbers of hooks, of snap-to-job entries and of
  job-to-snap entries are equal.
\<close>

lemma sequential_calls_keep_mapping_bijective:
  assumes "obeys (new_service args ids throwing) cs"
    and "st = run_calls (new_service args ids throwing) cs"
  shows "(\<forall>sid. snapRpcHooks st sid \<noteq> None \<longleftrightarrow> snapToJobMap st sid \<noteq> None) \<and>
         (\<forall>sid jobId. snapToJobMap st sid = Some jobId \<longleftrightarrow> jobToSnapMap st jobId = Some sid) \<and>
         inj_on (snapToJobMap st) (dom (snapToJobMap st)) \<and>
         inj_on (jobToSnapMap st) (dom (jobToSnapMap st)) \<and>
         card (dom (snapRpcHooks st)) = card (dom (snapToJobMap st)) \<and>
         card (dom (jobToSnapMap st)) = card (dom (snapToJobMap st))"
proof -
  have "consistent st"
    unfolding assms(2) using new_service_consistent assms(1) by (rule run_calls_consistent)
  then show ?thesis by (rule consistent_bijective)
qed

lemma sequential_calls_keep_mapping_bijective_example:
  "obeys example_service example_calls \<and>
   snapToJobMap (run_calls example_service example_calls) ''B'' = Some ''id-iiii'' \<and>
   snapToJobMap (run_calls example_service example_calls) ''A'' = None \<and>
   (\<forall>sid. snapRpcHooks (run_calls example_service example_calls) sid \<noteq> None \<longleftrightarrow>
          snapToJobMap (run_calls example_service example_calls) sid \<noteq> None) \<and>
   card (dom (snapRpcHooks (run_calls example_service example_calls))) =
     card (dom (snapToJobMap (run_calls example_service example_calls)))"
  using sequential_calls_keep_mapping_bijective
      [OF example_calls_obey [unfolded example_service_def]
          example_service_def [THEN arg_cong, of "\<lambda>s. run_calls s example_calls"]]
    example_calls_obey example_calls_result
  by simp

text \<open>
  C3. The claim: in every state reached by a sequence of \<^verbatim>\<open>executeSnap\<close> and
  \<^verbatim>\<open>terminateSnap\<close> calls that obeys the contract (no \<^verbatim>\<open>executeSnap\<close> for a snap
  that is executing, no \<^verbatim>\<open>terminateSnap\<close> for one that is not), a hook exists for
  a snap id if and only if the id is in the mapping, the mapping is bijective, and
  it has as many entries as there are hooks. The code breaks this with one call of
  \<^verbatim>\<open>executeSnap\<close> on a new service, for a snap that is not executing and whose id
  is the empty string. The isolate's controller rejects the parameters. The
  \<^verbatim>\<open>catch\<close> of \<^verbatim>\<open>executeSnap\<close> (part_001 218-221) calls \<^verbatim>\<open>terminate\<close> to undo the
  spawn, and for the snap id \<open>A\<close> the same failure leaves no mapping and no job
  behind. For the empty string \<^verbatim>\<open>terminate\<close> throws at its guard
  \<^verbatim>\<open>if (!snapId)\<close> (part_001 147), which takes the empty string for a missing
  entry: the caller sees that error, the mapping that \<^verbatim>\<open>executeSnap\<close> recorded stays
  in both directions with no hook for it, and the job and its iframe stay as well.
  The state is the one that the whole call reaches in which the command fails.
\<close>

theorem empty_snap_id_breaks_invariant:
  "snapToJobMap example_service (snapId snap_empty) = None \<and>
   settled (snd empty_id_executed) =
     [(ExecuteSnapCall snap_empty,
       Inl (Error ''Failed to find a snap for job with id \"id-\"''))] \<and>
   snapToJobMap (snd empty_id_executed) [] = Some ''id-'' \<and>
   jobToSnapMap (snd empty_id_executed) ''id-'' = Some [] \<and>
   snapRpcHooks (snd empty_id_executed) [] = None \<and>
   map fst (jobs (snd empty_id_executed)) = [''id-''] \<and>
   document_body (snd empty_id_executed) = [''id-''] \<and>
   snd empty_id_executed =
     run_calls example_service
       [Execute snap_empty (ExecuteFails (Error ''Invalid executeSnap parameters.''))] \<and>
   snapToJobMap
     (run_calls example_service
        [Execute snap_A (ExecuteFails (Error ''Invalid executeSnap parameters.''))]) ''A'' = None \<and>
   jobs
     (run_calls example_service
        [Execute snap_A (ExecuteFails (Error ''Invalid executeSnap parameters.''))]) = []"
  by (simp add: empty_id_executed_def executeSnap_call_def all_defs)

section \<open>Terminating jobs\<close>

lemma destroy_stream_store:
  "stream_store (destroy_stream r st) a =
     (case stream_store st a of
        None \<Rightarrow> None
      | Some s \<Rightarrow>
          if r = Some a \<and> \<not> destroyed s \<and> \<not> destroy_throws st a
          then Some (s\<lparr>destroyed := True, listeners := []\<rparr>)
          else Some s)"
  by (auto simp add: destroy_stream_def split: option.splits)

lemma destroy_stream_is_destroyed:
  "is_destroyed (destroy_stream r st) a \<longleftrightarrow>
     is_destroyed st a \<or> (r = Some a \<and> stream_store st a \<noteq> None \<and> \<not> destroy_throws st a)"
  by (auto simp add: is_destroyed_def destroy_stream_store split: option.splits)

lemma destroy_stream_store_dom:
  "stream_store (destroy_stream r st) a = None \<longleftrightarrow> stream_store st a = None"
  by (auto simp add: destroy_stream_store split: option.splits)

lemma destroy_streams_is_destroyed:
  "is_destroyed (destroy_streams ss st) a \<longleftrightarrow>
     is_destroyed st a \<or>
     (a \<in> set (stream_refs ss) \<and> stream_store st a \<noteq> None \<and> \<not> destroy_throws st a)"
proof (cases "rpc ss")
  case None
  then show ?thesis
    by (simp add: destroy_streams_def destroy_stream_is_destroyed destroy_stream_store_dom
        destroy_stream_frame stream_refs_def del: not_None_eq) blast
next
  case (Some r)
  then show ?thesis
    by (simp add: destroy_streams_def destroy_stream_is_destroyed destroy_stream_store_dom
        destroy_stream_frame stream_refs_def del: not_None_eq) blast
qed

lemma is_destroyed_update:
  "is_destroyed (st\<lparr>document_body := a, timers := b, timeoutForUnresponsiveMap := c,
       jobToSnapMap := d, snapToJobMap := e, snapRpcHooks := f, jobs := g\<rparr>) r = is_destroyed st r"
  by (simp add: is_destroyed_def)

lemma terminate_mapped:
  assumes "map_of (jobs st) jobId = Some job" and "jobToSnapMap st jobId = Some sid"
    and "sid \<noteq> []"
  shows "\<exists>st'. terminate jobId st = (Inr (), st') \<and>
           (\<forall>a \<in> set (stream_refs (streams job)).
              stream_store st a \<noteq> None \<and> \<not> destroy_throws st a \<longrightarrow> is_destroyed st' a) \<and>
           document_body st' = remove1 (job_id job) (document_body st) \<and>
           (\<forall>h. timeoutForUnresponsiveMap st sid = Some h \<longrightarrow> timers st' h = None) \<and>
           timeoutForUnresponsiveMap st' sid = None \<and>
           jobToSnapMap st' jobId = None \<and>
           snapToJobMap st' sid = None \<and>
           snapRpcHooks st' sid = None \<and>
           map_of (jobs st') jobId = None"
  by (simp add: terminate_known [OF assms] is_destroyed_update destroy_streams_is_destroyed
      AList.delete_conv)

lemma keys_delete: "map fst (AList.delete k al) = filter (\<lambda>k'. k' \<noteq> k) (map fst al)"
  by (induction al) auto

lemma terminate_each_mapped:
  assumes "consistent st" and "all_jobs_mapped st" and "distinct js"
    and "set js \<subseteq> set (map fst (jobs st))"
  shows "\<exists>st'. terminate_each js st = (Inr (), st') \<and> consistent st' \<and> all_jobs_mapped st' \<and>
           map fst (jobs st') = filter (\<lambda>j. j \<notin> set js) (map fst (jobs st))"
  using assms
proof (induction js arbitrary: st)
  case Nil
  then show ?case by simp
next
  case (Cons j js)
  from Cons.prems(4) have "j \<in> set (map fst (jobs st))" by simp
  then obtain job where job: "map_of (jobs st) j = Some job"
    by (metis map_of_eq_None_iff not_Some_eq set_map)
  from Cons.prems(2) \<open>j \<in> set (map fst (jobs st))\<close> obtain sid
    where sid: "jobToSnapMap st j = Some sid"
    by (auto simp add: all_jobs_mapped_def)
  then have s2j: "snapToJobMap st sid = Some j"
    by (rule iffD2 [OF consistentD(2) [OF Cons.prems(1)]])
  from consistentD(3) [OF Cons.prems(1) s2j] have ne: "sid \<noteq> []" by simp
  define st1 where "st1 = snd (terminate j st)"
  have t: "terminate j st = (Inr (), st1)"
    unfolding st1_def by (simp add: terminate_known [OF job sid ne])
  have f: "jobs st1 = AList.delete j (jobs st)"
    "snapToJobMap st1 = (snapToJobMap st)(sid := None)"
    "jobToSnapMap st1 = (jobToSnapMap st)(j := None)"
    "snapRpcHooks st1 = (snapRpcHooks st)(sid := None)"
    "timeoutForUnresponsiveMap st1 = (timeoutForUnresponsiveMap st)(sid := None)"
    unfolding st1_def by (simp_all add: terminate_known [OF job sid ne])
  have c1: "consistent st1"
    using Cons.prems(1) f sid by (rule consistent_removed)
  have m1: "all_jobs_mapped st1"
    using Cons.prems(2) by (auto simp add: all_jobs_mapped_def f keys_delete)
  from Cons.prems(3) have d: "distinct js" and nj: "j \<notin> set js" by simp_all
  from Cons.prems(4) nj have sub: "set js \<subseteq> set (map fst (jobs st1))"
    by (auto simp add: f keys_delete)
  from Cons.IH [OF c1 m1 d sub] obtain st' where
    r: "terminate_each js st1 = (Inr (), st')" "consistent st'" "all_jobs_mapped st'"
      "map fst (jobs st') = filter (\<lambda>k. k \<notin> set js) (map fst (jobs st1))"
    by blast
  have "map fst (jobs st') = filter (\<lambda>k. k \<notin> set (j # js)) (map fst (jobs st))"
    by (simp add: r(4) f keys_delete conj_commute)
  with r t show ?case by simp
qed

lemma terminateAllSnaps_empties:
  assumes "consistent st" and "all_jobs_mapped st"
  shows "\<exists>st'. terminateAllSnaps st = (Inr (), st') \<and> jobs st' = [] \<and>
           snapToJobMap st' = Map.empty \<and> jobToSnapMap st' = Map.empty \<and>
           snapRpcHooks st' = Map.empty \<and> timeoutForUnresponsiveMap st' = Map.empty"
proof -
  from terminate_each_mapped [OF assms consistentD(1) [OF assms(1)] subset_refl]
  obtain st1 where r: "terminate_each (map fst (jobs st)) st = (Inr (), st1)" "consistent st1"
    and k: "map fst (jobs st1) = filter (\<lambda>j. j \<notin> set (map fst (jobs st))) (map fst (jobs st))"
    by blast
  from k have e: "jobs st1 = []" by simp
  have s: "snapToJobMap st1 sid = None" for sid
  proof (cases "snapToJobMap st1 sid")
    case None then show ?thesis .
  next
    case (Some j)
    from consistentD(3) [OF r(2) Some] e show ?thesis by simp
  qed
  have j: "jobToSnapMap st1 jobId = None" for jobId
  proof (cases "jobToSnapMap st1 jobId")
    case None then show ?thesis .
  next
    case (Some sid)
    then have "snapToJobMap st1 sid = Some jobId" by (rule iffD2 [OF consistentD(2) [OF r(2)]])
    with s show ?thesis by simp
  qed
  have t: "timeoutForUnresponsiveMap st1 sid = None" for sid
  proof (rule ccontr)
    assume "timeoutForUnresponsiveMap st1 sid \<noteq> None"
    then have "snapToJobMap st1 sid \<noteq> None" by (rule consistentD(5) [OF r(2)])
    with s show False by simp
  qed
  show ?thesis
    by (simp add: terminateAllSnaps_def r(1) e) (auto simp add: s j t)
qed

section \<open>Where hooks come from\<close>

lemma terminate_hooks:
  "terminate jobId st = (r, st') \<Longrightarrow> snapRpcHooks st' sid = Some h \<Longrightarrow>
     snapRpcHooks st sid = Some h"
  by (auto simp add: terminate_def truthy_get_def destroy_streams_frame clearTimeout_timers
      removeSnapAndJobMapping_def removeSnapHooks_def deleteJob_def Let_def
      split: option.splits if_splits)

lemma terminate_each_hooks:
  "terminate_each js st = (r, st') \<Longrightarrow> snapRpcHooks st' sid = Some h \<Longrightarrow>
     snapRpcHooks st sid = Some h"
proof (induction js arbitrary: st)
  case Nil
  then show ?case by simp
next
  case (Cons j js)
  obtain r1 st1 where t: "terminate j st = (r1, st1)" by (cases "terminate j st")
  show ?case
  proof (cases r1)
    case (Inl e)
    with t Cons.prems have "snapRpcHooks st1 sid = Some h" by simp
    with t show ?thesis by (rule terminate_hooks)
  next
    case (Inr u)
    with t Cons.prems have "terminate_each js st1 = (r, st')" by simp
    then have "snapRpcHooks st1 sid = Some h" using Cons.prems(2) by (rule Cons.IH)
    with t show ?thesis by (rule terminate_hooks)
  qed
qed

lemma executeSnap_failed_hooks:
  "snapRpcHooks (executeSnap_failed d job e st) sid = Some h \<Longrightarrow> snapRpcHooks st sid = Some h"
  by (auto simp add: executeSnap_failed_def settle_def split: prod.splits sum.splits
      dest: terminate_hooks)

lemma step_hooks_calls:
  "snapRpcHooks (step st (ExecuteSnapCalled d)) = snapRpcHooks st"
  "snapRpcHooks (step st (RpcHookCalled hook origin request)) = snapRpcHooks st"
  "snapRpcHooks (step st (IframeLoaded jobId)) = snapRpcHooks st"
  "snapRpcHooks (step st (TimerFired t)) = snapRpcHooks st"
  by (simp_all add: step_def executeSnap_def nanoid_def createWindow_def setTimeout_def settle_def
      rpcHook_def command_send_def iframe_loaded_def clearTimeout_timers init_loaded_def
      initStreams_def setJob_def timer_fired_def createWindow_timeout_def poll_fired_def
      publish_def ping_timeout_fired_def Let_def
      split: option.splits prod.splits timer_callback.splits)

lemma step_hooks_terminate:
  "snapRpcHooks (step st (TerminateSnapCalled s)) sid = Some h \<Longrightarrow> snapRpcHooks st sid = Some h"
  by (auto simp add: step_def settle_unit_def terminateSnap_def settle_def
      split: option.splits prod.splits sum.splits dest: terminate_hooks)

lemma step_hooks_terminate_all:
  "snapRpcHooks (step st TerminateAllSnapsCalled) sid = Some h \<Longrightarrow> snapRpcHooks st sid = Some h"
  by (auto simp add: step_def settle_unit_def terminateAllSnaps_def settle_def
      split: option.splits prod.splits sum.splits dest: terminate_each_hooks)

lemma resume_hooks:
  assumes "snapRpcHooks (resume k data st) sid = Some h"
  shows "snapRpcHooks st sid = Some h \<or>
         (\<exists>d job. k = ExecuteCommand d job \<and> snapId d = sid \<and> m_error data = None \<and>
            h = \<lparr>hook_snapId = snapId d, hook_jobId = job_id job\<rparr>)"
proof (cases k)
  case (InitPing d job)
  with assms show ?thesis
    by (auto simp add: resume_def init_ping_response_def command_result_def settle_def
        executeSnap_spawned_def mapSnapAndJob_def nanoid_def command_send_def Let_def
        split: option.splits dest: executeSnap_failed_hooks)
next
  case (ExecuteCommand d job)
  with assms show ?thesis
    by (auto simp add: resume_def executeSnap_response_def command_result_def settle_def
        pollForJobStatus_def setTimeout_def createSnapHooks_def Let_def
        split: option.splits if_splits dest: executeSnap_failed_hooks)
next
  case (StatusPing t s)
  with assms show ?thesis
    by (auto simp add: resume_def status_response_def command_result_def publish_def
        clearTimeout_timers pollForJobStatus_def setTimeout_def Let_def
        split: option.splits if_splits)
next
  case (HookCommand c)
  with assms show ?thesis by (simp add: resume_def settle_def)
qed

lemma command_data_hooks:
  assumes "snapRpcHooks (command_data jobId data st) sid = Some h"
  shows "snapRpcHooks st sid = Some h \<or>
         (\<exists>d job. inflight st (jobId, m_id data) = Some (ExecuteCommand d job) \<and>
            snapId d = sid \<and> m_error data = None \<and>
            h = \<lparr>hook_snapId = snapId d, hook_jobId = job_id job\<rparr>)"
  using assms
  by (auto simp add: command_data_def emit_data_frame pump_destroys_frame Let_def
      split: option.splits if_splits dest!: resume_hooks)

lemma step_hooks_origin:
  assumes "snapRpcHooks (step st ev) sid = Some h"
  shows "snapRpcHooks st sid = Some h \<or>
         (\<exists>jobId data d job.
            ev = CommandData jobId data \<and>
            inflight st (jobId, m_id data) = Some (ExecuteCommand d job) \<and>
            snapId d = sid \<and> m_error data = None \<and>
            h = \<lparr>hook_snapId = snapId d, hook_jobId = job_id job\<rparr>)"
proof (cases ev)
  case (ExecuteSnapCalled d)
  with assms show ?thesis by (simp add: step_hooks_calls)
next
  case (TerminateSnapCalled s)
  with assms show ?thesis by (auto dest: step_hooks_terminate)
next
  case TerminateAllSnapsCalled
  with assms show ?thesis by (auto dest: step_hooks_terminate_all)
next
  case (RpcHookCalled hook origin request)
  with assms show ?thesis by (simp add: step_hooks_calls)
next
  case (IframeLoaded jobId)
  with assms show ?thesis by (simp add: step_hooks_calls)
next
  case (TimerFired t)
  with assms show ?thesis by (simp add: step_hooks_calls)
next
  case (CommandData jobId data)
  with assms have "snapRpcHooks (command_data jobId data st) sid = Some h"
    by (simp add: step_def)
  from command_data_hooks [OF this] CommandData show ?thesis by auto
qed

lemma step_hooks:
  assumes "snapRpcHooks (step st ev) sid = Some h"
  shows "snapRpcHooks st sid = Some h \<or>
         (\<exists>jobId data d job.
            ev = CommandData jobId data \<and>
            inflight st (jobId, m_id data) = Some (ExecuteCommand d job) \<and>
            snapId d = sid \<and> m_error data = None)"
  using step_hooks_origin [OF assms] by blast

text \<open>A hook is stored under the snap id it closes over, in every state the service
  reaches.\<close>

lemma step_hook_names:
  assumes "\<forall>sid h. snapRpcHooks st sid = Some h \<longrightarrow> hook_snapId h = sid"
  shows "\<forall>sid h. snapRpcHooks (step st ev) sid = Some h \<longrightarrow> hook_snapId h = sid"
proof (intro allI impI)
  fix sid h assume "snapRpcHooks (step st ev) sid = Some h"
  from step_hooks_origin [OF this] assms show "hook_snapId h = sid" by auto
qed

lemma run_hook_names_from:
  "\<forall>sid h. snapRpcHooks st sid = Some h \<longrightarrow> hook_snapId h = sid \<Longrightarrow>
     \<forall>sid h. snapRpcHooks (run st evs) sid = Some h \<longrightarrow> hook_snapId h = sid"
proof (induction evs arbitrary: st)
  case Nil
  then show ?case by (simp add: run_def)
next
  case (Cons ev evs)
  from Cons.IH [OF step_hook_names [OF Cons.prems, of ev]]
  show ?case by (simp add: run_def)
qed

lemma run_hook_names:
  "snapRpcHooks (run (new_service args ids throwing) evs) sid = Some h \<Longrightarrow> hook_snapId h = sid"
  using run_hook_names_from [of "new_service args ids throwing" evs]
  by (simp add: new_service_def)

section \<open>Where the mapping comes from and how long it stays\<close>

lemma terminate_missing_job:
  "map_of (jobs st) jobId = None \<Longrightarrow>
     terminate jobId st = (Inl (Error (''Job with id \"'' @ jobId @ ''\" not found.'')), st)"
  by (simp add: terminate_def)

lemma step_mapping_calls:
  "snapToJobMap (step st (ExecuteSnapCalled d)) = snapToJobMap st"
  "snapToJobMap (step st (RpcHookCalled hook origin request)) = snapToJobMap st"
  "snapToJobMap (step st (IframeLoaded jobId)) = snapToJobMap st"
  "snapToJobMap (step st (TimerFired t)) = snapToJobMap st"
  "jobToSnapMap (step st (ExecuteSnapCalled d)) = jobToSnapMap st"
  "jobToSnapMap (step st (RpcHookCalled hook origin request)) = jobToSnapMap st"
  "jobToSnapMap (step st (IframeLoaded jobId)) = jobToSnapMap st"
  "jobToSnapMap (step st (TimerFired t)) = jobToSnapMap st"
  by (simp_all add: step_def executeSnap_def nanoid_def createWindow_def setTimeout_def settle_def
      rpcHook_def command_send_def iframe_loaded_def clearTimeout_timers init_loaded_def
      initStreams_def setJob_def timer_fired_def createWindow_timeout_def poll_fired_def
      publish_def ping_timeout_fired_def Let_def
      split: option.splits prod.splits timer_callback.splits)

lemma spawn_records_mapping:
  assumes "map_of (jobs st) (job_id job) = Some job'" and "m_error response = None"
    and "st' = init_ping_response d job response st"
  shows "snapToJobMap st' = (snapToJobMap st)(snapId d \<mapsto> job_id job) \<and>
         jobToSnapMap st' = (jobToSnapMap st)(job_id job \<mapsto> snapId d) \<and>
         sent st' =
           sent st @
           [(job_id job,
             \<lparr>q_id = IdStr (fst (nanoid st)),
              q_command = ExecuteSnap (Some (snapId d)) (Some (sourceCode d))\<rparr>)] \<and>
         inflight st' =
           (inflight st)((job_id job, IdStr (fst (nanoid st))) \<mapsto> ExecuteCommand d job) \<and>
         snapRpcHooks st' = snapRpcHooks st \<and>
         settled st' = settled st"
  using assms
  by (simp add: init_ping_response_def command_result_def executeSnap_spawned_def
      mapSnapAndJob_def nanoid_def command_send_def Let_def)

lemma resume_mapping:
  assumes "snapToJobMap st sid \<noteq> None"
    and "\<not> (\<exists>d job. k = ExecuteCommand d job \<and> m_error data \<noteq> None)"
  shows "snapToJobMap (resume k data st) sid \<noteq> None"
proof (cases k)
  case (InitPing d job)
  show ?thesis
  proof (cases "map_of (jobs st) (job_id job)")
    case None
    with assms InitPing show ?thesis
      by (simp add: resume_def init_ping_response_def command_result_def settle_def
          executeSnap_spawned_def mapSnapAndJob_def nanoid_def command_send_def
          executeSnap_failed_def terminate_missing_job Let_def split: option.splits)
  next
    case (Some job')
    with assms InitPing show ?thesis
      by (simp add: resume_def init_ping_response_def command_result_def settle_def
          executeSnap_spawned_def mapSnapAndJob_def nanoid_def command_send_def
          Let_def split: option.splits)
  qed
next
  case (ExecuteCommand d job)
  with assms show ?thesis
    by (simp add: resume_def executeSnap_response_def command_result_def settle_def
        pollForJobStatus_def setTimeout_def createSnapHooks_def Let_def
        split: option.splits)
next
  case (StatusPing t s)
  with assms show ?thesis
    by (simp add: resume_def status_response_def command_result_def publish_def
        clearTimeout_timers pollForJobStatus_def setTimeout_def Let_def
        split: option.splits)
next
  case (HookCommand c)
  with assms show ?thesis by (simp add: resume_def settle_def)
qed

lemma step_keeps_mapping:
  assumes "snapToJobMap st sid \<noteq> None" and "\<not> runs_terminate st ev"
  shows "snapToJobMap (step st ev) sid \<noteq> None"
proof (cases ev)
  case (ExecuteSnapCalled d)
  with assms show ?thesis by (simp add: step_mapping_calls)
next
  case (TerminateSnapCalled s)
  with assms show ?thesis by (simp add: runs_terminate_def)
next
  case TerminateAllSnapsCalled
  with assms show ?thesis by (simp add: runs_terminate_def)
next
  case (RpcHookCalled hook origin request)
  with assms show ?thesis by (simp add: step_mapping_calls)
next
  case (IframeLoaded jobId)
  with assms show ?thesis by (simp add: step_mapping_calls)
next
  case (TimerFired t)
  with assms show ?thesis by (simp add: step_mapping_calls)
next
  case (CommandData jobId data)
  with assms(2) have nt: "\<not> (\<exists>d job. inflight st (jobId, m_id data) = Some (ExecuteCommand d job) \<and>
      m_error data \<noteq> None)"
    by (auto simp add: runs_terminate_def)
  show ?thesis
    unfolding CommandData step_def
    using assms(1) nt
    by (auto simp add: command_data_def emit_data_frame pump_destroys_frame Let_def
        split: option.splits if_splits intro!: resume_mapping [simplified])
qed

section \<open>More facts about the concrete service\<close>


lemma executeSnap_rejects_mapped:
  "snapToJobMap st (snapId d) \<noteq> None \<Longrightarrow>
     executeSnap d st =
       (Inl (Error (''Snap \"'' @ snapId d @ ''\" is already being executed.'')), st)"
  by (simp add: executeSnap_def)

lemma running_A_facts:
  "snapRpcHooks running_A ''A'' = Some hook_A"
  "map_of (jobs running_A) ''id-'' = Some job_A"
  "jobToSnapMap running_A ''id-'' = Some ''A''"
  "timeoutForUnresponsiveMap running_A ''A'' = Some 2"
  "timers running_A 2 = Some (5000, PollJobStatus ''A'' ''id-'')"
  "document_body running_A = [''id-'']"
  by (simp_all add: running_A_def spawned_A_def hook_A_def job_A_def all_defs)

lemma running_A_streams:
  "stream_store running_A 0 \<noteq> None" "stream_store running_A 1 \<noteq> None"
  "stream_store running_A 2 \<noteq> None" "\<not> destroy_throws running_A a"
  by (simp_all add: running_A_def spawned_A_def all_defs)

lemma running_A_consistent: "consistent running_A"
  by (auto simp add: consistent_def running_A_def spawned_A_def all_defs split: if_splits)

lemma running_A_all_mapped: "all_jobs_mapped running_A"
  by (simp add: all_jobs_mapped_def running_A_def spawned_A_def all_defs)

lemma ping_failed_A_facts:
  "map_of (jobs ping_failed_A) ''id-'' = Some job_A"
  "jobToSnapMap ping_failed_A ''id-'' = None"
  by (simp_all add: ping_failed_A_def job_A_def all_defs)

lemma running_AB_jobs: "map fst (jobs running_AB) = [''id-'', ''id-iii'']"
  by (simp add: running_AB_def running_A_def spawned_A_def all_defs)

lemma running_AB_consistent: "consistent running_AB"
  by (auto simp add: consistent_def running_AB_def running_A_def spawned_A_def all_defs
      split: if_splits)

lemma running_AB_all_mapped: "all_jobs_mapped running_AB"
  by (simp add: all_jobs_mapped_def running_AB_def running_A_def spawned_A_def all_defs)

lemma spawned_A_facts:
  "snapRpcHooks spawned_A ''A'' = None"
  "inflight spawned_A (''id-'', IdStr ''id-ii'') = Some (ExecuteCommand snap_A job_A)"
  "snapToJobMap spawned_A ''A'' = Some ''id-''"
  by (simp_all add: spawned_A_def job_A_def all_defs)

lemma loaded_A_facts:
  "map_of (jobs loaded_A) ''id-'' = Some job_A"
  "snapToJobMap loaded_A ''A'' = None"
  by (simp_all add: loaded_A_def job_A_def all_defs)

section \<open>The RPC hook, there and back\<close>

lemma respond_id: "m_id (respond i obj) = i"
  by (simp add: respond_def split: response_obj.splits)

lemma handleSnapRpc_id: "m_id (handleSnapRpc i origin request target c) = i"
  by (simp add: handleSnapRpc_def respond_id split: option.splits handler_outcome.splits)

lemma handleSnapRpc_result:
  "command_result (handleSnapRpc i origin request target c) =
     (case snapRpcHandlers c target of
        None \<Rightarrow> Inl (Error (''No RPC handler registered for snap \"'' @ target @ ''\".''))
      | Some handler \<Rightarrow>
          (case handler origin request of
             Resolves v \<Rightarrow> Inr (Some v)
           | Rejects e \<Rightarrow>
               Inl (Error (if message e = [] then ''Internal JSON-RPC error.'' else message e))))"
  by (simp add: handleSnapRpc_def respond_def command_result_def serializeError_def
      split: option.splits handler_outcome.splits)

lemma hook_installed:
  assumes "m_error response = None" and "truthy_get (snapToJobMap st) (snapId d) \<noteq> None"
  shows "getRpcMessageHandler (snapId d) (executeSnap_response d job response st) =
           Some \<lparr>hook_snapId = snapId d, hook_jobId = job_id job\<rparr>"
  using assms
  by (auto simp add: getRpcMessageHandler_def executeSnap_response_def command_result_def
      pollForJobStatus_def setTimeout_def createSnapHooks_def settle_def Let_def
      split: option.splits)

lemma hook_called:
  assumes "map_of (jobs st) (hook_jobId hook) = Some job"
    and "stream_store st (command (streams job)) = Some s"
    and "\<not> destroyed s"
    and "fst (nanoid st) \<noteq> []"
  shows "settled (snd (isolate_answers cpt c (rpcHook hook origin request st))) =
           settled st @
           [(RpcHookCall hook origin request,
             (case snapRpcHandlers c (hook_snapId hook) of
                None \<Rightarrow>
                  Inl (Error (''No RPC handler registered for snap \"'' @ hook_snapId hook @ ''\".''))
              | Some handler \<Rightarrow>
                  (case handler origin request of
                     Resolves v \<Rightarrow> Inr (Some v)
                   | Rejects e \<Rightarrow>
                       Inl (Error (if message e = [] then ''Internal JSON-RPC error.''
                                   else message e)))))]"
  using assms
  by (simp add: rpcHook_def nanoid_def command_send_def isolate_answers_def onCommandRequest_def
      step_def command_data_def emit_data_ignores falsy_id_def handleSnapRpc_id resume_def
      settle_def handleSnapRpc_result Let_def)

lemma running_A_reached:
  "running_A =
     run (new_service
            \<lparr>arg_iframeUrl = ''https://execution.example/'',
             arg_unresponsivePollingInterval = None,
             arg_unresponsiveTimeout = None,
             arg_createWindowTimeout = None\<rparr>
            example_ids (\<lambda>a. False))
       [ExecuteSnapCalled snap_A, IframeLoaded ''id-'', CommandData ''id-'' (ok_reply ''id-i''),
        CommandData ''id-'' (ok_reply ''id-ii'')]"
  by (simp add: running_A_def spawned_A_def run_def example_service_def)

lemma running_A_hook_facts:
  "getRpcMessageHandler ''A'' running_A = Some hook_A"
  "stream_store running_A (command (streams job_A)) =
     Some \<lparr>destroyed = False, listeners = [ErrorHandler ''id-'']\<rparr>"
  "fst (nanoid running_A) = ''id-iii''"
  "settled running_A = [(ExecuteSnapCall snap_A, Inr (Some (JStr ''OK'')))]"
  "truthy_get (snapToJobMap spawned_A) ''A'' = Some ''id-''"
  by (simp_all add: running_A_def spawned_A_def hook_A_def job_A_def all_defs)

lemma executed_A_handler:
  "snapRpcHandlers (fst executed_A) ''A'' = Some method_handler"
  by (simp add: executed_A_def spawned_A_def all_defs)

text \<open>
  C8, the counterexample. The claim says that when the handler throws or rejects
  with an error \<open>e\<close>, the hook's promise rejects with an error whose message equals
  \<open>e\<close>'s message. Snap \<open>A\<close> registers a handler that throws \<^verbatim>\<open>new Error("")\<close>; the
  isolate's own controller answers the \<^verbatim>\<open>executeSnap\<close> command and then the
  \<^verbatim>\<open>snapRpc\<close> request of the hook that the service stores for \<open>A\<close>. The hook's
  promise rejects with the message \<^verbatim>\<open>Internal JSON-RPC error.\<close>, which the engine
  puts in the place of the empty one.
\<close>

theorem empty_error_message_is_replaced:
  "snapRpcHandlers (fst executed_mute) ''A'' = Some mute_handler \<and>
   mute_handler ''origin1'' (JObj []) = Rejects (Error []) \<and>
   getRpcMessageHandler ''A'' (snd executed_mute) = Some hook_A \<and>
   settled
     (snd (isolate_answers example_compartment (fst executed_mute)
             (rpcHook hook_A ''origin1'' (JObj []) (snd executed_mute)))) =
     [(ExecuteSnapCall snap_mute, Inr (Some (JStr ''OK''))),
      (RpcHookCall hook_A ''origin1'' (JObj []), Inl (Error ''Internal JSON-RPC error.''))]"
  by (simp add: executed_mute_def hook_A_def all_defs)

text \<open>
  C8, as amended. The hook of a snap is the one that \<^verbatim>\<open>_createSnapHooks\<close> stores
  when the isolate has confirmed the \<^verbatim>\<open>executeSnap\<close> command: a closure over the
  snap id and the job id, which \<^verbatim>\<open>getRpcMessageHandler\<close> returns. In any state that
  the service reaches from its construction, take the hook that
  \<^verbatim>\<open>getRpcMessageHandler\<close> returns for a snap id and call it with
  \<^verbatim>\<open>(origin, request)\<close> while its job is in the service's \<^verbatim>\<open>jobs\<close> and the job's
  command substream is open (the id that \<^verbatim>\<open>nanoid\<close> mints for the request is not
  empty); the isolate's controller handles the \<^verbatim>\<open>snapRpc\<close> request the hook
  writes, and its response is delivered. Then the hook's promise settles, once, as
  follows. If a handler is registered for the snap and it returns \<open>v\<close> for
  \<^verbatim>\<open>(origin, request)\<close>, the promise resolves to exactly \<open>v\<close>. If the handler throws
  or rejects with an error \<open>e\<close> whose message is not empty, the promise rejects with
  an error whose message is \<open>e\<close>'s message (an empty message is replaced by
  \<^verbatim>\<open>Internal JSON-RPC error.\<close>). If no handler is registered for the snap, the
  promise rejects with \<^verbatim>\<open>No RPC handler registered for snap "<id>".\<close>
\<close>

theorem rpc_hook_round_trip:
  "(m_error response = None \<and> truthy_get (snapToJobMap st0) (snapId d) \<noteq> None \<longrightarrow>
      getRpcMessageHandler (snapId d) (executeSnap_response d job0 response st0) =
        Some \<lparr>hook_snapId = snapId d, hook_jobId = job_id job0\<rparr>) \<and>
   (st = run (new_service args ids throwing) evs \<and>
    getRpcMessageHandler sid st = Some hook \<and>
    map_of (jobs st) (hook_jobId hook) = Some job \<and>
    stream_store st (command (streams job)) = Some s \<and> \<not> destroyed s \<and>
    fst (nanoid st) \<noteq> [] \<longrightarrow>
      settled (snd (isolate_answers cpt c (rpcHook hook origin request st))) =
        settled st @
        [(RpcHookCall hook origin request,
          (case snapRpcHandlers c sid of
             None \<Rightarrow> Inl (Error (''No RPC handler registered for snap \"'' @ sid @ ''\".''))
           | Some handler \<Rightarrow>
               (case handler origin request of
                  Resolves v \<Rightarrow> Inr (Some v)
                | Rejects e \<Rightarrow>
                    Inl (Error (if message e = [] then ''Internal JSON-RPC error.''
                                else message e)))))])"
proof (intro conjI impI)
  assume "m_error response = None \<and> truthy_get (snapToJobMap st0) (snapId d) \<noteq> None"
  then show "getRpcMessageHandler (snapId d) (executeSnap_response d job0 response st0) =
        Some \<lparr>hook_snapId = snapId d, hook_jobId = job_id job0\<rparr>"
    by (simp add: hook_installed)
next
  assume a: "st = run (new_service args ids throwing) evs \<and>
    getRpcMessageHandler sid st = Some hook \<and>
    map_of (jobs st) (hook_jobId hook) = Some job \<and>
    stream_store st (command (streams job)) = Some s \<and> \<not> destroyed s \<and>
    fst (nanoid st) \<noteq> []"
  then have st: "st = run (new_service args ids throwing) evs"
    and h: "getRpcMessageHandler sid st = Some hook"
    by blast+
  from h have "snapRpcHooks (run (new_service args ids throwing) evs) sid = Some hook"
    by (simp only: st getRpcMessageHandler_def)
  then have n: "hook_snapId hook = sid" by (rule run_hook_names)
  from a have "map_of (jobs st) (hook_jobId hook) = Some job"
    "stream_store st (command (streams job)) = Some s" "\<not> destroyed s" "fst (nanoid st) \<noteq> []"
    by blast+
  note called = hook_called [OF this, of cpt c origin request, unfolded n]
  show "settled (snd (isolate_answers cpt c (rpcHook hook origin request st))) =
        settled st @
        [(RpcHookCall hook origin request,
          (case snapRpcHandlers c sid of
             None \<Rightarrow> Inl (Error (''No RPC handler registered for snap \"'' @ sid @ ''\".''))
           | Some handler \<Rightarrow>
               (case handler origin request of
                  Resolves v \<Rightarrow> Inr (Some v)
                | Rejects e \<Rightarrow>
                    Inl (Error (if message e = [] then ''Internal JSON-RPC error.''
                                else message e)))))]"
    by (rule called)
qed

theorem rpc_hook_round_trip_witness:
  "getRpcMessageHandler ''A''
     (executeSnap_response snap_A job_A (ok_reply ''id-ii'') spawned_A) = Some hook_A \<and>
   settled (snd (isolate_answers example_compartment (fst executed_A)
       (rpcHook hook_A ''origin1'' (JObj [(''method'', JStr ''hello'')]) running_A))) =
     [(ExecuteSnapCall snap_A, Inr (Some (JStr ''OK''))),
      (RpcHookCall hook_A ''origin1'' (JObj [(''method'', JStr ''hello'')]),
       Inr (Some (JStr ''hello'')))] \<and>
   settled (snd (isolate_answers example_compartment (fst executed_A)
       (rpcHook hook_A ''origin1'' (JObj []) running_A))) =
     [(ExecuteSnapCall snap_A, Inr (Some (JStr ''OK''))),
      (RpcHookCall hook_A ''origin1'' (JObj []), Inl (Error ''no method''))] \<and>
   settled (snd (isolate_answers example_compartment \<lparr>snapRpcHandlers = Map.empty\<rparr>
       (rpcHook hook_A ''origin1'' (JObj []) running_A))) =
     [(ExecuteSnapCall snap_A, Inr (Some (JStr ''OK''))),
      (RpcHookCall hook_A ''origin1'' (JObj []),
       Inl (Error ''No RPC handler registered for snap \"A\".''))]"
proof -
  note w = rpc_hook_round_trip
    [where response = "ok_reply ''id-ii''" and ?st0.0 = spawned_A and d = snap_A
       and ?job0.0 = job_A and st = running_A
       and args = "\<lparr>arg_iframeUrl = ''https://execution.example/'',
                     arg_unresponsivePollingInterval = None,
                     arg_unresponsiveTimeout = None,
                     arg_createWindowTimeout = None\<rparr>"
       and ids = example_ids and throwing = "\<lambda>a. False"
       and evs = "[ExecuteSnapCalled snap_A, IframeLoaded ''id-'',
                   CommandData ''id-'' (ok_reply ''id-i''), CommandData ''id-'' (ok_reply ''id-ii'')]"
       and sid = "''A''" and hook = hook_A and job = job_A
       and s = "\<lparr>destroyed = False, listeners = [ErrorHandler ''id-'']\<rparr>"
       and cpt = example_compartment and origin = "''origin1''"]
  have e: "m_error (ok_reply ''id-ii'') = None" "snapId snap_A = ''A''"
    "hook_jobId hook_A = ''id-''" "job_id job_A = ''id-''"
    "hook_A = \<lparr>hook_snapId = ''A'', hook_jobId = ''id-''\<rparr>"
    "''id-iii'' \<noteq> ([] :: string)"
    by (simp_all add: ok_reply_def snap_A_def hook_A_def job_A_def)
  note f = running_A_hook_facts running_A_facts(2) running_A_reached [symmetric]
  from w [where c = "fst executed_A" and request = "JObj [(''method'', JStr ''hello'')]"] e f
  have 1: "getRpcMessageHandler ''A''
     (executeSnap_response snap_A job_A (ok_reply ''id-ii'') spawned_A) = Some hook_A"
    and 2: "settled (snd (isolate_answers example_compartment (fst executed_A)
       (rpcHook hook_A ''origin1'' (JObj [(''method'', JStr ''hello'')]) running_A))) =
     [(ExecuteSnapCall snap_A, Inr (Some (JStr ''OK''))),
      (RpcHookCall hook_A ''origin1'' (JObj [(''method'', JStr ''hello'')]),
       Inr (Some (JStr ''hello'')))]"
    by (simp_all add: executed_A_handler method_handler_def)
  from w [where c = "fst executed_A" and request = "JObj []"] e f
  have 3: "settled (snd (isolate_answers example_compartment (fst executed_A)
       (rpcHook hook_A ''origin1'' (JObj []) running_A))) =
     [(ExecuteSnapCall snap_A, Inr (Some (JStr ''OK''))),
      (RpcHookCall hook_A ''origin1'' (JObj []), Inl (Error ''no method''))]"
    by (simp add: executed_A_handler method_handler_def)
  from w [where c = "\<lparr>snapRpcHandlers = Map.empty\<rparr>" and request = "JObj []"] e f
  have 4: "settled (snd (isolate_answers example_compartment \<lparr>snapRpcHandlers = Map.empty\<rparr>
       (rpcHook hook_A ''origin1'' (JObj []) running_A))) =
     [(ExecuteSnapCall snap_A, Inr (Some (JStr ''OK''))),
      (RpcHookCall hook_A ''origin1'' (JObj []),
       Inl (Error ''No RPC handler registered for snap \"A\".''))]"
    by simp
  from 1 2 3 4 show ?thesis by simp
qed

section \<open>When the mapping and the hook are installed and removed\<close>

text \<open>
  C2, the counterexample. The claim says that the mapping entry is installed only
  after the isolate has confirmed the \<^verbatim>\<open>executeSnap\<close> command, and removed before
  the streams are destroyed. In the service in which snap \<open>A\<close> was spawned, the
  \<^verbatim>\<open>executeSnap\<close> command is still awaiting its response and the caller's promise
  is not settled, yet the mapping holds \<open>A\<close> in both directions (there is no hook).
  And in \<^verbatim>\<open>terminate\<close> the streams are destroyed first: after the loop over the
  job's streams, the command substream is destroyed while the mapping and the hook
  of the running snap are still there.
\<close>


theorem mapping_precedes_confirmation:
  "snapToJobMap spawned_A ''A'' = Some ''id-'' \<and>
   jobToSnapMap spawned_A ''id-'' = Some ''A'' \<and>
   inflight spawned_A (''id-'', IdStr ''id-ii'') = Some (ExecuteCommand snap_A job_A) \<and>
   settled spawned_A = [] \<and>
   snapRpcHooks spawned_A ''A'' = None \<and>
   is_destroyed (destroy_streams (streams job_A) running_A) 1 \<and>
   snapToJobMap (destroy_streams (streams job_A) running_A) ''A'' =
     Some ''id-'' \<and>
   snapRpcHooks (destroy_streams (streams job_A) running_A) ''A'' =
     Some hook_A"
  by (simp add: spawned_A_def running_A_def hook_A_def job_A_def is_destroyed_def all_defs)

text \<open>
  C2, as amended. The hook is installed only after the isolate has confirmed the
  \<^verbatim>\<open>executeSnap\<close> command: whenever a turn of the event loop leaves a hook for a
  snap that had none, the turn is the arrival of a response without an error to the
  awaited \<^verbatim>\<open>executeSnap\<close> command of that snap. The mapping entry is installed
  earlier: not when \<^verbatim>\<open>executeSnap\<close> is called nor when the iframe loads, but when
  the ping of \<^verbatim>\<open>_init\<close> is answered without an error, in both directions and in the
  same turn that then writes the \<^verbatim>\<open>executeSnap\<close> command; no hook is installed
  and the caller's promise is not settled in that turn. On \<^verbatim>\<open>terminate\<close> of a job
  that is mapped to a snap with a non-empty id, the streams are destroyed first and
  the mapping and the hook are removed after, within the one synchronous call: when
  it returns, every stream of the job whose \<^verbatim>\<open>destroy()\<close> did not throw is
  destroyed, and neither direction of the mapping nor the hook is left. So no state
  between turns has a hook for a snap whose execution the isolate has not confirmed,
  nor a mapping or hook for a job that \<^verbatim>\<open>terminate\<close> has destroyed.
\<close>


theorem hook_after_confirmation_mapping_at_spawn:
  "(snapRpcHooks (step st ev) sid = Some h \<longrightarrow>
      snapRpcHooks st sid = Some h \<or>
      (\<exists>jobId data d job.
         ev = CommandData jobId data \<and>
         inflight st (jobId, m_id data) = Some (ExecuteCommand d job) \<and>
         snapId d = sid \<and> m_error data = None)) \<and>
   snapToJobMap (step st (ExecuteSnapCalled d)) = snapToJobMap st \<and>
   snapToJobMap (step st (IframeLoaded jobId)) = snapToJobMap st \<and>
   (map_of (jobs st) (job_id job) = Some job' \<and> m_error response = None \<longrightarrow>
      snapToJobMap (init_ping_response d job response st) (snapId d) = Some (job_id job) \<and>
      jobToSnapMap (init_ping_response d job response st) (job_id job) = Some (snapId d) \<and>
      sent (init_ping_response d job response st) =
        sent st @
        [(job_id job,
          \<lparr>q_id = IdStr (fst (nanoid st)),
           q_command = ExecuteSnap (Some (snapId d)) (Some (sourceCode d))\<rparr>)] \<and>
      snapRpcHooks (init_ping_response d job response st) = snapRpcHooks st \<and>
      settled (init_ping_response d job response st) = settled st) \<and>
   (map_of (jobs st) jobId = Some job0 \<and> jobToSnapMap st jobId = Some s \<and> s \<noteq> [] \<longrightarrow>
      (\<exists>st'. terminate jobId st = (Inr (), st') \<and>
         (\<forall>a \<in> set (stream_refs (streams job0)).
            stream_store st a \<noteq> None \<and> \<not> destroy_throws st a \<longrightarrow> is_destroyed st' a) \<and>
         jobToSnapMap st' jobId = None \<and>
         snapToJobMap st' s = None \<and>
         snapRpcHooks st' s = None))"
proof (intro conjI impI)
  assume "snapRpcHooks (step st ev) sid = Some h"
  then show "snapRpcHooks st sid = Some h \<or>
      (\<exists>jobId data d job.
         ev = CommandData jobId data \<and>
         inflight st (jobId, m_id data) = Some (ExecuteCommand d job) \<and>
         snapId d = sid \<and> m_error data = None)"
    by (rule step_hooks)
next
  show "snapToJobMap (step st (ExecuteSnapCalled d)) = snapToJobMap st"
    by (rule step_mapping_calls)
next
  show "snapToJobMap (step st (IframeLoaded jobId)) = snapToJobMap st"
    by (rule step_mapping_calls)
next
  assume a: "map_of (jobs st) (job_id job) = Some job' \<and> m_error response = None"
  from a spawn_records_mapping [of st job job' response _ d, OF _ _ refl]
  show "snapToJobMap (init_ping_response d job response st) (snapId d) = Some (job_id job)"
    and "jobToSnapMap (init_ping_response d job response st) (job_id job) = Some (snapId d)"
    and "sent (init_ping_response d job response st) =
        sent st @
        [(job_id job,
          \<lparr>q_id = IdStr (fst (nanoid st)),
           q_command = ExecuteSnap (Some (snapId d)) (Some (sourceCode d))\<rparr>)]"
    and "snapRpcHooks (init_ping_response d job response st) = snapRpcHooks st"
    and "settled (init_ping_response d job response st) = settled st"
    by simp_all
next
  assume "map_of (jobs st) jobId = Some job0 \<and> jobToSnapMap st jobId = Some s \<and> s \<noteq> []"
  then have "map_of (jobs st) jobId = Some job0" "jobToSnapMap st jobId = Some s" "s \<noteq> []"
    by simp_all
  from terminate_mapped [OF this]
  show "\<exists>st'. terminate jobId st = (Inr (), st') \<and>
         (\<forall>a \<in> set (stream_refs (streams job0)).
            stream_store st a \<noteq> None \<and> \<not> destroy_throws st a \<longrightarrow> is_destroyed st' a) \<and>
         jobToSnapMap st' jobId = None \<and>
         snapToJobMap st' s = None \<and>
         snapRpcHooks st' s = None"
    by blast
qed

theorem hook_after_confirmation_mapping_at_spawn_witness:
  "(\<exists>jobId data d job.
      CommandData ''id-'' (ok_reply ''id-ii'') = CommandData jobId data \<and>
      inflight spawned_A (jobId, m_id data) = Some (ExecuteCommand d job) \<and>
      snapId d = ''A'' \<and> m_error data = None) \<and>
   (\<exists>st'. terminate ''id-'' running_A = (Inr (), st') \<and>
      is_destroyed st' 0 \<and> is_destroyed st' 1 \<and> is_destroyed st' 2 \<and>
      jobToSnapMap st' ''id-'' = None \<and> snapToJobMap st' ''A'' = None \<and>
      snapRpcHooks st' ''A'' = None)"
proof -
  have h: "snapRpcHooks (step spawned_A (CommandData ''id-'' (ok_reply ''id-ii''))) ''A'' =
      Some hook_A"
    using running_A_facts(1) by (simp add: running_A_def)
  have n: "''A'' \<noteq> ([] :: string)" by simp
  note w = hook_after_confirmation_mapping_at_spawn
    [of spawned_A "CommandData ''id-'' (ok_reply ''id-ii'')" "''A''" hook_A]
  note v = hook_after_confirmation_mapping_at_spawn
    [of running_A "TimerFired 0" "''A''" hook_A snap_A "''id-''"
      job_A job_A "error_reply ''id-ii'' ''no''" job_A "''A''"]
  from w h spawned_A_facts(1) have 1: "\<exists>jobId data d job.
      CommandData ''id-'' (ok_reply ''id-ii'') = CommandData jobId data \<and>
      inflight spawned_A (jobId, m_id data) = Some (ExecuteCommand d job) \<and>
      snapId d = ''A'' \<and> m_error data = None"
    by simp
  from v running_A_facts(2,3) n running_A_streams obtain st' where
    "terminate ''id-'' running_A = (Inr (), st')" "is_destroyed st' 0" "is_destroyed st' 1"
    "is_destroyed st' 2" "jobToSnapMap st' ''id-'' = None" "snapToJobMap st' ''A'' = None"
    "snapRpcHooks st' ''A'' = None"
    by (auto simp add: stream_refs_def job_A_def)
  then have 2: "\<exists>st'. terminate ''id-'' running_A = (Inr (), st') \<and>
      is_destroyed st' 0 \<and> is_destroyed st' 1 \<and> is_destroyed st' 2 \<and>
      jobToSnapMap st' ''id-'' = None \<and> snapToJobMap st' ''A'' = None \<and>
      snapRpcHooks st' ''A'' = None"
    by simp
  from 1 2 show ?thesis by (rule conjI)
qed

section \<open>Overlapping calls of \<^verbatim>\<open>executeSnap\<close> for one snap\<close>

text \<open>
  Once \<^verbatim>\<open>executeSnap\<close> for a snap \<open>S\<close> has recorded the mapping (the ping of
  \<^verbatim>\<open>_init\<close> is answered and the job has been returned), while the \<^verbatim>\<open>executeSnap\<close>
  command is still awaiting the isolate's response, the mapping contains \<open>S\<close>, and a
  call \<^verbatim>\<open>executeSnap\<close> for \<open>S\<close> in that state rejects with
  \<^verbatim>\<open>Snap "S" is already being executed.\<close> and changes nothing. The entry stays,
  and such a call keeps being rejected, through every turn of the event loop that
  does not run \<^verbatim>\<open>terminate\<close>. And in every state reached from a new service by
  whole calls that run one after the other and obey the contract of \<open>obeys\<close>, no two
  jobs are mapped to the same snap id.
\<close>

lemma mapping_from_spawn_to_terminate:
  "(map_of (jobs st) (job_id job) = Some job' \<and> m_error response = None \<longrightarrow>
      snapToJobMap (init_ping_response d job response st) (snapId d) = Some (job_id job) \<and>
      inflight (init_ping_response d job response st) (job_id job, IdStr (fst (nanoid st))) =
        Some (ExecuteCommand d job) \<and>
      (\<forall>d2. snapId d2 = snapId d \<longrightarrow>
         executeSnap d2 (init_ping_response d job response st) =
           (Inl (Error (''Snap \"'' @ snapId d @ ''\" is already being executed.'')),
            init_ping_response d job response st))) \<and>
   (snapToJobMap st sid \<noteq> None \<and> \<not> runs_terminate st ev \<longrightarrow>
      snapToJobMap (step st ev) sid \<noteq> None \<and>
      (\<forall>d2. snapId d2 = sid \<longrightarrow>
         executeSnap d2 (step st ev) =
           (Inl (Error (''Snap \"'' @ sid @ ''\" is already being executed.'')), step st ev))) \<and>
   (obeys (new_service args ids throwing) cs \<longrightarrow>
      (\<forall>j1 j2 s.
         jobToSnapMap (run_calls (new_service args ids throwing) cs) j1 = Some s \<and>
         jobToSnapMap (run_calls (new_service args ids throwing) cs) j2 = Some s \<longrightarrow> j1 = j2))"
proof (intro conjI impI allI)
  assume a: "map_of (jobs st) (job_id job) = Some job' \<and> m_error response = None"
  from a spawn_records_mapping [of st job job' response _ d, OF _ _ refl]
  show m: "snapToJobMap (init_ping_response d job response st) (snapId d) = Some (job_id job)"
    and "inflight (init_ping_response d job response st) (job_id job, IdStr (fst (nanoid st))) =
        Some (ExecuteCommand d job)"
    by simp_all
  fix d2 :: snap_data assume "snapId d2 = snapId d"
  with m executeSnap_rejects_mapped [of "init_ping_response d job response st" d2]
  show "executeSnap d2 (init_ping_response d job response st) =
          (Inl (Error (''Snap \"'' @ snapId d @ ''\" is already being executed.'')),
           init_ping_response d job response st)"
    by simp
next
  assume "snapToJobMap st sid \<noteq> None \<and> \<not> runs_terminate st ev"
  then have "snapToJobMap st sid \<noteq> None" "\<not> runs_terminate st ev" by simp_all
  then show k: "snapToJobMap (step st ev) sid \<noteq> None" by (rule step_keeps_mapping)
  fix d2 :: snap_data assume "snapId d2 = sid"
  with k executeSnap_rejects_mapped [of "step st ev" d2]
  show "executeSnap d2 (step st ev) =
          (Inl (Error (''Snap \"'' @ sid @ ''\" is already being executed.'')), step st ev)"
    by simp
next
  fix j1 j2 s
  assume o: "obeys (new_service args ids throwing) cs"
    and "jobToSnapMap (run_calls (new_service args ids throwing) cs) j1 = Some s \<and>
         jobToSnapMap (run_calls (new_service args ids throwing) cs) j2 = Some s"
  then have j: "jobToSnapMap (run_calls (new_service args ids throwing) cs) j1 = Some s"
    "jobToSnapMap (run_calls (new_service args ids throwing) cs) j2 = Some s"
    by simp_all
  have c: "consistent (run_calls (new_service args ids throwing) cs)"
    using new_service_consistent o by (rule run_calls_consistent)
  from j have "snapToJobMap (run_calls (new_service args ids throwing) cs) s = Some j1"
    "snapToJobMap (run_calls (new_service args ids throwing) cs) s = Some j2"
    by (simp_all add: consistentD(2) [OF c])
  then show "j1 = j2" by simp
qed

lemma example_calls_job_B:
  "jobToSnapMap (run_calls example_service example_calls) ''id-iiii'' = Some ''B''"
  by (simp add: example_calls_def executeSnap_call_def all_defs)

lemma confirmation_is_no_terminate:
  "\<not> runs_terminate spawned_A (CommandData ''id-'' (ok_reply ''id-ii''))"
  by (simp add: runs_terminate_def spawned_A_facts ok_reply_def)

lemma mapping_from_spawn_to_terminate_example:
  "snapToJobMap (init_ping_response snap_A job_A (ok_reply ''id-i'') loaded_A) ''A'' =
     Some ''id-'' \<and>
   executeSnap snap_A (init_ping_response snap_A job_A (ok_reply ''id-i'') loaded_A) =
     (Inl (Error ''Snap \"A\" is already being executed.''),
      init_ping_response snap_A job_A (ok_reply ''id-i'') loaded_A) \<and>
   snapToJobMap running_A ''A'' \<noteq> None \<and>
   executeSnap snap_A running_A =
     (Inl (Error ''Snap \"A\" is already being executed.''), running_A) \<and>
   (\<forall>j. jobToSnapMap (run_calls example_service example_calls) j = Some ''B'' \<longleftrightarrow>
        j = ''id-iiii'')"
proof -
  note a = mapping_from_spawn_to_terminate
    [of loaded_A job_A job_A "ok_reply ''id-i''" snap_A "''A''" "TimerFired 0"
      "\<lparr>arg_iframeUrl = [], arg_unresponsivePollingInterval = None,
        arg_unresponsiveTimeout = None, arg_createWindowTimeout = None\<rparr>"
      example_ids "\<lambda>a. False" "[]"]
  note b = mapping_from_spawn_to_terminate
    [of spawned_A job_A job_A "error_reply ''id-ii'' ''no''" snap_A "''A''"
      "CommandData ''id-'' (ok_reply ''id-ii'')"
      "\<lparr>arg_iframeUrl = ''https://execution.example/'', arg_unresponsivePollingInterval = None,
        arg_unresponsiveTimeout = None, arg_createWindowTimeout = None\<rparr>"
      example_ids "\<lambda>a. False" example_calls]
  have s: "snapId snap_A = ''A''" "job_id job_A = ''id-''" "m_error (ok_reply ''id-i'') = None"
    by (simp_all add: snap_A_def job_A_def ok_reply_def)
  from a loaded_A_facts(1) s
  have 1: "snapToJobMap (init_ping_response snap_A job_A (ok_reply ''id-i'') loaded_A) ''A'' =
      Some ''id-''"
    and 2: "executeSnap snap_A (init_ping_response snap_A job_A (ok_reply ''id-i'') loaded_A) =
      (Inl (Error ''Snap \"A\" is already being executed.''),
       init_ping_response snap_A job_A (ok_reply ''id-i'') loaded_A)"
    by simp_all
  from b spawned_A_facts(3) confirmation_is_no_terminate s
  have 3: "snapToJobMap running_A ''A'' \<noteq> None"
    and 4: "executeSnap snap_A running_A =
      (Inl (Error ''Snap \"A\" is already being executed.''), running_A)"
    by (simp_all add: running_A_def)
  from b example_calls_obey
  have "\<forall>j1 j2 s.
      jobToSnapMap (run_calls example_service example_calls) j1 = Some s \<and>
      jobToSnapMap (run_calls example_service example_calls) j2 = Some s \<longrightarrow> j1 = j2"
    by (simp add: example_service_def)
  with example_calls_job_B
  have 5: "\<forall>j. jobToSnapMap (run_calls example_service example_calls) j = Some ''B'' \<longleftrightarrow>
      j = ''id-iiii''"
    by blast
  from 1 2 3 4 5 show ?thesis by simp
qed

text \<open>
  C10. The claim: from the moment \<^verbatim>\<open>executeSnap(S)\<close> has spawned its job the
  mapping contains \<open>S\<close>, so that an overlapping second call is rejected, and
  consequently no two live jobs are ever mapped to the same snap id in any reachable
  state. The guard that rejects the second call (part_001 203-205) reads the mapping
  before \<^verbatim>\<open>await this._init()\<close>, and the mapping is written after it (part_001
  207-208). Two calls \<^verbatim>\<open>executeSnap\<close> for snap \<open>A\<close> overlap, the second starting
  while the first is still in \<^verbatim>\<open>_init\<close>: the guard lets the second pass as well,
  neither call is rejected, both jobs are spawned and stay in \<^verbatim>\<open>jobs\<close>, and both
  are mapped to \<open>A\<close>, the second replacing the first in the snap-to-job direction.
  When the isolates have confirmed both \<^verbatim>\<open>executeSnap\<close> commands, both calls have
  resolved, and the one hook of \<open>A\<close> leads to the second job.
\<close>

theorem overlapping_spawns_share_a_snap:
  "fst (executeSnap snap_A (step example_service (ExecuteSnapCalled snap_A))) = Inr () \<and>
   settled raced_A = [] \<and>
   map fst (jobs raced_A) = [''id-'', ''id-i''] \<and>
   jobToSnapMap raced_A ''id-'' = Some ''A'' \<and>
   jobToSnapMap raced_A ''id-i'' = Some ''A'' \<and>
   snapToJobMap raced_A ''A'' = Some ''id-i'' \<and>
   settled raced_A_confirmed =
     [(ExecuteSnapCall snap_A, Inr (Some (JStr ''OK''))),
      (ExecuteSnapCall snap_A, Inr (Some (JStr ''OK'')))] \<and>
   map fst (jobs raced_A_confirmed) = [''id-'', ''id-i''] \<and>
   jobToSnapMap raced_A_confirmed ''id-'' = Some ''A'' \<and>
   jobToSnapMap raced_A_confirmed ''id-i'' = Some ''A'' \<and>
   snapRpcHooks raced_A_confirmed ''A'' = Some \<lparr>hook_snapId = ''A'', hook_jobId = ''id-i''\<rparr>"
  by (simp add: raced_A_def raced_A_confirmed_def all_defs)

section \<open>Terminating a job, and all of them\<close>

text \<open>
  C5, the counterexample. The claim says that \<^verbatim>\<open>terminate\<close> never throws for a job
  that is present in the jobs map. In the service in which the ping of a spawn was
  answered with an error, the job is present in \<^verbatim>\<open>jobs\<close> and no snap is mapped to
  it: \<^verbatim>\<open>terminate\<close> throws at its guard and \<^verbatim>\<open>terminateAllSnaps\<close> throws with it,
  and the job record, the iframe and the open streams all stay.
\<close>


theorem unmapped_job_cannot_be_terminated:
  "map_of (jobs ping_failed_A) ''id-'' = Some job_A \<and>
   terminate ''id-'' ping_failed_A =
     (Inl (Error ''Failed to find a snap for job with id \"id-\"''), ping_failed_A) \<and>
   terminateAllSnaps ping_failed_A =
     (Inl (Error ''Failed to find a snap for job with id \"id-\"''), ping_failed_A) \<and>
   map fst (jobs ping_failed_A) = [''id-''] \<and>
   document_body ping_failed_A = [''id-''] \<and>
   \<not> is_destroyed ping_failed_A 1"
  by (simp add: ping_failed_A_def job_A_def is_destroyed_def all_defs)

text \<open>
  C5, as amended. For every job that is present in the jobs map and mapped to a snap
  whose id is not empty, \<^verbatim>\<open>terminate(jobId)\<close> does not throw, also when a
  \<^verbatim>\<open>destroy()\<close> does; and after it returns, every stream of the job whose
  \<^verbatim>\<open>destroy()\<close> did not throw is destroyed, the job's iframe is removed from the
  document, the liveness timer stored for the snap is cancelled and its entry gone,
  both directions of the mapping are gone, the snap's hook is gone and the job record
  is gone. For every job that is present in the jobs map and has no snap mapped to
  it, \<^verbatim>\<open>terminate(jobId)\<close> throws at its guard,
  \<^verbatim>\<open>Failed to find a snap for job with id "<id>"\<close>, and changes nothing. After
  \<^verbatim>\<open>terminateAllSnaps()\<close> on a service whose maps are consistent and in which every
  job is mapped to a snap, the call does not throw and the hooks, both mappings, the
  jobs and the liveness timers are all empty.
\<close>


theorem terminate_mapped_job:
  "(map_of (jobs st) jobId = Some job \<and> jobToSnapMap st jobId = Some sid \<and> sid \<noteq> [] \<longrightarrow>
      (\<exists>st'. terminate jobId st = (Inr (), st') \<and>
         (\<forall>a \<in> set (stream_refs (streams job)).
            stream_store st a \<noteq> None \<and> \<not> destroy_throws st a \<longrightarrow> is_destroyed st' a) \<and>
         document_body st' = remove1 (job_id job) (document_body st) \<and>
         (\<forall>h. timeoutForUnresponsiveMap st sid = Some h \<longrightarrow> timers st' h = None) \<and>
         timeoutForUnresponsiveMap st' sid = None \<and>
         jobToSnapMap st' jobId = None \<and>
         snapToJobMap st' sid = None \<and>
         snapRpcHooks st' sid = None \<and>
         map_of (jobs st') jobId = None)) \<and>
   (map_of (jobs st) jobId = Some job \<and> jobToSnapMap st jobId = None \<longrightarrow>
      terminate jobId st =
        (Inl (Error (''Failed to find a snap for job with id \"'' @ jobId @ ''\"'')), st)) \<and>
   (consistent st \<and> all_jobs_mapped st \<longrightarrow>
      (\<exists>st'. terminateAllSnaps st = (Inr (), st') \<and> jobs st' = [] \<and>
         snapToJobMap st' = Map.empty \<and> jobToSnapMap st' = Map.empty \<and>
         snapRpcHooks st' = Map.empty \<and> timeoutForUnresponsiveMap st' = Map.empty))"
proof (intro conjI impI)
  assume "map_of (jobs st) jobId = Some job \<and> jobToSnapMap st jobId = Some sid \<and> sid \<noteq> []"
  then have "map_of (jobs st) jobId = Some job" "jobToSnapMap st jobId = Some sid" "sid \<noteq> []"
    by simp_all
  then show "\<exists>st'. terminate jobId st = (Inr (), st') \<and>
         (\<forall>a \<in> set (stream_refs (streams job)).
            stream_store st a \<noteq> None \<and> \<not> destroy_throws st a \<longrightarrow> is_destroyed st' a) \<and>
         document_body st' = remove1 (job_id job) (document_body st) \<and>
         (\<forall>h. timeoutForUnresponsiveMap st sid = Some h \<longrightarrow> timers st' h = None) \<and>
         timeoutForUnresponsiveMap st' sid = None \<and>
         jobToSnapMap st' jobId = None \<and>
         snapToJobMap st' sid = None \<and>
         snapRpcHooks st' sid = None \<and>
         map_of (jobs st') jobId = None"
    by (rule terminate_mapped)
next
  assume "map_of (jobs st) jobId = Some job \<and> jobToSnapMap st jobId = None"
  then show "terminate jobId st =
        (Inl (Error (''Failed to find a snap for job with id \"'' @ jobId @ ''\"'')), st)"
    by (simp add: terminate_def truthy_get_def)
next
  assume "consistent st \<and> all_jobs_mapped st"
  then have "consistent st" "all_jobs_mapped st" by simp_all
  then show "\<exists>st'. terminateAllSnaps st = (Inr (), st') \<and> jobs st' = [] \<and>
         snapToJobMap st' = Map.empty \<and> jobToSnapMap st' = Map.empty \<and>
         snapRpcHooks st' = Map.empty \<and> timeoutForUnresponsiveMap st' = Map.empty"
    by (rule terminateAllSnaps_empties)
qed

theorem terminate_mapped_job_witness:
  "(\<exists>st'. terminate ''id-'' running_A = (Inr (), st') \<and>
      is_destroyed st' 0 \<and> is_destroyed st' 1 \<and> is_destroyed st' 2 \<and>
      document_body st' = [] \<and> timers st' 2 = None \<and>
      timeoutForUnresponsiveMap st' ''A'' = None \<and> jobToSnapMap st' ''id-'' = None \<and>
      snapToJobMap st' ''A'' = None \<and> snapRpcHooks st' ''A'' = None \<and>
      map_of (jobs st') ''id-'' = None) \<and>
   terminate ''id-'' ping_failed_A =
     (Inl (Error ''Failed to find a snap for job with id \"id-\"''), ping_failed_A) \<and>
   map fst (jobs running_AB) = [''id-'', ''id-iii''] \<and>
   (\<exists>st'. terminateAllSnaps running_AB = (Inr (), st') \<and> jobs st' = [] \<and>
      snapToJobMap st' = Map.empty \<and> jobToSnapMap st' = Map.empty \<and>
      snapRpcHooks st' = Map.empty \<and> timeoutForUnresponsiveMap st' = Map.empty)"
proof -
  have n: "''A'' \<noteq> ([] :: string)" by simp
  note w = terminate_mapped_job [of running_A "''id-''" job_A "''A''"]
  from w running_A_facts n running_A_streams obtain st' where
    "terminate ''id-'' running_A = (Inr (), st')" "is_destroyed st' 0" "is_destroyed st' 1"
    "is_destroyed st' 2" "document_body st' = []" "timers st' 2 = None"
    "timeoutForUnresponsiveMap st' ''A'' = None" "jobToSnapMap st' ''id-'' = None"
    "snapToJobMap st' ''A'' = None" "snapRpcHooks st' ''A'' = None"
    "map_of (jobs st') ''id-'' = None"
    by (auto simp add: stream_refs_def job_A_def)
  then have 1: "\<exists>st'. terminate ''id-'' running_A = (Inr (), st') \<and>
      is_destroyed st' 0 \<and> is_destroyed st' 1 \<and> is_destroyed st' 2 \<and>
      document_body st' = [] \<and> timers st' 2 = None \<and>
      timeoutForUnresponsiveMap st' ''A'' = None \<and> jobToSnapMap st' ''id-'' = None \<and>
      snapToJobMap st' ''A'' = None \<and> snapRpcHooks st' ''A'' = None \<and>
      map_of (jobs st') ''id-'' = None"
    by simp
  from terminate_mapped_job [of ping_failed_A "''id-''" job_A "''A''"] ping_failed_A_facts
  have 2: "terminate ''id-'' ping_failed_A =
     (Inl (Error ''Failed to find a snap for job with id \"id-\"''), ping_failed_A)"
    by simp
  from terminate_mapped_job [of running_AB "''id-''" job_A "''A''"]
    running_AB_consistent running_AB_all_mapped
  have 3: "\<exists>st'. terminateAllSnaps running_AB = (Inr (), st') \<and> jobs st' = [] \<and>
      snapToJobMap st' = Map.empty \<and> jobToSnapMap st' = Map.empty \<and>
      snapRpcHooks st' = Map.empty \<and> timeoutForUnresponsiveMap st' = Map.empty"
    by simp
  from 1 2 running_AB_jobs 3 show ?thesis by simp
qed

section \<open>The liveness loop\<close>















end
